theory Spec2Isabelle
  imports Main "HOL-Library.Word" "HOL-Library.Monad_Syntax"
begin

section \<open>Strings and primitive values of the runtime\<close>

text \<open>
  An ECMAScript string is a sequence of UTF-16 code units, and \<open>length\<close>, \<open>trim\<close>,
  \<open>replace\<close>, \<open>substr\<close> and \<open>split\<close> all work on code units. A string is therefore a
  list of 16-bit words. ASCII literals of the source are written \<open>js ''...''\<close>; literals
  with Hangul are written as their code units.
\<close>

type_synonym jschar = "16 word"
type_synonym jsstring = "jschar list"

definition js :: "string \<Rightarrow> jsstring" where
  "js s = map (\<lambda>c. of_nat (of_char c)) s"

text \<open>
  \<open>String.prototype.trim\<close> removes leading and trailing WhiteSpace and LineTerminator
  code points (ECMA-262, 12.2 and 12.3); all of them are single code units.
\<close>

definition isWhiteSpace :: "jschar \<Rightarrow> bool" where
  "isWhiteSpace c \<longleftrightarrow>
     c \<in> {0x0009, 0x000A, 0x000B, 0x000C, 0x000D, 0x0020, 0x00A0, 0x1680,
          0x2000, 0x2001, 0x2002, 0x2003, 0x2004, 0x2005, 0x2006, 0x2007,
          0x2008, 0x2009, 0x200A, 0x2028, 0x2029, 0x202F, 0x205F, 0x3000, 0xFEFF}"

definition trimStart :: "jsstring \<Rightarrow> jsstring" where
  "trimStart s = dropWhile isWhiteSpace s"

definition trim :: "jsstring \<Rightarrow> jsstring" where
  "trim s = rev (dropWhile isWhiteSpace (rev (dropWhile isWhiteSpace s)))"

text \<open>
  \<open>String.prototype.toLowerCase\<close> is the Unicode default case conversion, which is not
  one table per code unit. The functions that call it take it as the parameter
  \<open>toLowerCase\<close>, and what is proved of them holds for every such function.
  \<open>toLowerCase_ascii\<close> is its restriction to strings of ASCII code units, used to run
  the definitions on concrete inputs.
\<close>

definition toLowerCase_ascii :: "jsstring \<Rightarrow> jsstring" where
  "toLowerCase_ascii s = map (\<lambda>c. if 0x41 \<le> c \<and> c \<le> 0x5A then c + 0x20 else c) s"

text \<open>
  \<open>Number.prototype.toString\<close> (radix 10) of an integer-valued number below
  \<open>10\<^sup>2\<^sup>1\<close> in magnitude is its decimal numeral, with a minus sign when negative.
  Numbers are modelled as \<open>int\<close>; fractions, NaN and the infinities are outside the
  model.
\<close>

definition digit :: "nat \<Rightarrow> jschar" where
  "digit d = of_nat (48 + d)"

fun natToString :: "nat \<Rightarrow> jsstring" where
  "natToString n = (if n < 10 then [digit n] else natToString (n div 10) @ [digit (n mod 10)])"

declare natToString.simps [simp del]

definition numberToString :: "int \<Rightarrow> jsstring" where
  "numberToString i = (if i < 0 then js ''-'' @ natToString (nat (- i)) else natToString (nat i))"

section \<open>Data model (types.ts)\<close>

text \<open>
  The interfaces of \<open>types.ts\<close>, one record each. Several interfaces have fields called
  \<open>id\<close>, \<open>name\<close> and \<open>size\<close>; the fields carry a prefix for their interface
  (\<open>p_\<close> Product, \<open>e_\<close> ShippingEntry, \<open>c_\<close> Collection, \<open>ci_\<close> CartItem).
\<close>

datatype ShippingStatus = PREPARING | SHIPPED

record Product =
  p_id :: jsstring
  p_name :: jsstring
  p_price :: jsstring
  p_options :: "jsstring list"
  p_description :: jsstring
  p_images :: "jsstring list"

record ShippingEntry =
  e_id :: jsstring
  e_status :: ShippingStatus
  e_submitDate :: jsstring
  e_instagramId :: jsstring
  e_name :: jsstring
  e_phone :: jsstring
  e_address :: jsstring
  e_message :: jsstring
  e_extra :: jsstring
  e_productName :: jsstring
  e_size :: jsstring
  e_quantity :: int
  e_adminMemo :: jsstring

record Collection =
  c_id :: jsstring
  c_name :: jsstring
  c_accessCode :: jsstring
  c_maxProducts :: int
  c_logoUrl :: "jsstring option"
  c_lookbookImages :: "jsstring list"
  c_descriptionTitle :: jsstring
  c_descriptionBody :: jsstring
  c_products :: "Product list"
  c_shippingEntries :: "ShippingEntry list"

record CartItem =
  ci_productId :: jsstring
  ci_productName :: jsstring
  ci_size :: jsstring
  ci_image :: jsstring

record AppState =
  collections :: "Collection list"
  activeCollectionId :: "jsstring option"
  adminAccessCode :: jsstring

section \<open>The App component (App.tsx)\<close>

text \<open>
  The state hooks of \<open>App\<close>, in the order of the source. \<open>notify\<close> sets the toast
  message; the timer that clears it three seconds later is not modelled.
\<close>

datatype User = Admin | Influencer
datatype AppView = V_login | V_select_collection | V_admin | V_influencer
datatype AdminSubView = SV_settings | SV_products | SV_shipping | SV_report
datatype NotifyType = N_success | N_error

record App =
  state :: AppState
  currentUser :: "User option"
  activeCollection :: "Collection option"
  accessCodeInput :: jsstring
  error :: "jsstring option"
  success :: "jsstring option"
  cart :: "CartItem list"
  view :: AppView
  adminSubView :: AdminSubView
  isCreateModalOpen :: bool
  newCollectionName :: jsstring

definition notify :: "jsstring \<Rightarrow> NotifyType \<Rightarrow> App \<Rightarrow> App" where
  "notify msg ty app =
     (case ty of N_success \<Rightarrow> app\<lparr>success := Some msg\<rparr> | N_error \<Rightarrow> app\<lparr>error := Some msg\<rparr>)"

definition handleLogin :: "(jsstring \<Rightarrow> jsstring) \<Rightarrow> App \<Rightarrow> App" where
  "handleLogin toLowerCase app =
     (let code = toLowerCase (trim (accessCodeInput app)) in
      if code = toLowerCase (adminAccessCode (state app))
      then app\<lparr>currentUser := Some Admin, view := V_select_collection\<rparr>
      else (case find (\<lambda>c. toLowerCase (c_accessCode c) = code) (collections (state app)) of
              Some matched \<Rightarrow>
                app\<lparr>activeCollection := Some matched, currentUser := Some Influencer,
                    view := V_influencer\<rparr>
            | None \<Rightarrow> notify (js ''Invalid Access Code'') N_error app))"

definition handleLogout :: "App \<Rightarrow> App" where
  "handleLogout app =
     app\<lparr>currentUser := None, activeCollection := None, cart := [], view := V_login,
         accessCodeInput := []\<rparr>"

definition updateCollection :: "Collection \<Rightarrow> App \<Rightarrow> App" where
  "updateCollection updated app =
     (let newCollections = map (\<lambda>c. if c_id c = c_id updated then updated else c)
                               (collections (state app))
      in app\<lparr>state := (state app)\<lparr>collections := newCollections\<rparr>,
             activeCollection := Some updated\<rparr>)"


text \<open>
  \<open>generateId\<close> is \<open>Math.random().toString(36).substr(2, 9)\<close>. The pseudo-random source
  is an input of the model: every function that calls \<open>generateId\<close> takes the string
  \<open>Math.random().toString(36)\<close> it draws as an argument.
\<close>

definition generateId :: "jsstring \<Rightarrow> jsstring" where
  "generateId random36 = take 9 (drop 2 random36)"

subsection \<open>Storage usage (utils)\<close>

text \<open>
  \<open>localStorage\<close> is the list of its own key/value pairs in enumeration order.
  \<open>getStorageUsage\<close> returns \<open>(total / (1024 * 1024)).toFixed(2)\<close>, a string. \<open>total\<close> is an
  integer and the divisor a power of two, so the quotient is exact in binary64 (for totals
  below \<open>2\<^sup>5\<^sup>3\<close>), and \<open>toFixed(2)\<close> picks the integer \<open>n\<close> with \<open>n / 100\<close> nearest to it,
  the larger one on a tie (ECMA-262, Number.prototype.toFixed): \<open>n\<close> is
  \<open>usageHundredths\<close> of the total.
\<close>

type_synonym Storage = "(jsstring \<times> jsstring) list"

definition getItem :: "Storage \<Rightarrow> jsstring \<Rightarrow> jsstring option" where
  "getItem localStorage k = map_of localStorage k"

definition setItem :: "jsstring \<Rightarrow> jsstring \<Rightarrow> Storage \<Rightarrow> Storage" where
  "setItem k v localStorage =
     (if k \<in> fst ` set localStorage
      then map (\<lambda>(k', v'). if k' = k then (k', v) else (k', v')) localStorage
      else localStorage @ [(k, v)])"

definition storageTotal :: "Storage \<Rightarrow> nat" where
  "storageTotal localStorage = foldl (\<lambda>tot (x, v). tot + (length v + length x) * 2) 0 localStorage"

definition usageHundredths :: "nat \<Rightarrow> nat" where
  "usageHundredths tot = (200 * tot + 1048576) div 2097152"

definition toFixed2 :: "nat \<Rightarrow> jsstring" where
  "toFixed2 hundredths =
     natToString (hundredths div 100) @ js ''.'' @
     [digit (hundredths mod 100 div 10), digit (hundredths mod 10)]"

definition getStorageUsage :: "Storage \<Rightarrow> jsstring" where
  "getStorageUsage localStorage = toFixed2 (usageHundredths (storageTotal localStorage))"

definition MAX_STORAGE_MB :: nat where
  "MAX_STORAGE_MB = 5"

text \<open>
  The test \<open>parseFloat(getStorageUsage()) >= MAX_STORAGE_MB * 0.95\<close>. In binary64
  \<open>5 * 0.95\<close> is exactly \<open>4.75\<close>, \<open>parseFloat\<close> of a numeral with two decimals is the
  nearest binary64 number, and rounding to nearest is monotone, so the test holds exactly
  when the hundredths of the usage string are at least \<open>475 = 95 * MAX_STORAGE_MB\<close>.
\<close>

definition storageNearlyFull :: "Storage \<Rightarrow> bool" where
  "storageNearlyFull localStorage \<longleftrightarrow>
     95 * MAX_STORAGE_MB \<le> usageHundredths (storageTotal localStorage)"

subsection \<open>createCollection\<close>

text \<open>
  \<open>random1\<close> and \<open>random2\<close> are the two draws of \<open>Math.random().toString(36)\<close>, for the
  id and for the access code.
\<close>

definition createCollection :: "Storage \<Rightarrow> jsstring \<Rightarrow> jsstring \<Rightarrow> App \<Rightarrow> App" where
  "createCollection localStorage random1 random2 app =
     (let name = trim (newCollectionName app) in
      if name = [] then app
      else if storageNearlyFull localStorage
      then notify (js ''Storage nearly full. Delete old collections first.'') N_error app
      else
        (let newColl =
               \<lparr>c_id = generateId random1,
                c_name = name,
                c_accessCode = take 6 (generateId random2),
                c_maxProducts = 2,
                c_logoUrl = None,
                c_lookbookImages = [],
                c_descriptionTitle = js ''Collection Story'',
                c_descriptionBody = js ''Share the inspiration behind this season.'',
                c_products = [],
                c_shippingEntries = []\<rparr>
         in notify (js ''Collection '' @ [0x22] @ name @ [0x22] @ js '' created'') N_success
              (app\<lparr>state := (state app)\<lparr>collections := collections (state app) @ [newColl]\<rparr>,
                   activeCollection := Some newColl,
                   view := V_admin,
                   adminSubView := SV_settings,
                   isCreateModalOpen := False,
                   newCollectionName := []\<rparr>)))"

section \<open>The AdminDashboard component\<close>

text \<open>
  \<open>parseInt(string)\<close> with no radix (ECMA-262, 19.2.5): leading white space is skipped, a
  sign is read, a \<open>0x\<close> or \<open>0X\<close> prefix selects radix 16, and the longest prefix of digits
  is the value; with no digit the result is NaN, here \<open>None\<close>.
\<close>

definition digitValue :: "nat \<Rightarrow> jschar \<Rightarrow> nat option" where
  "digitValue radix c =
     (let v = (if 0x30 \<le> c \<and> c \<le> 0x39 then Some (unat c - 0x30)
               else if 0x61 \<le> c \<and> c \<le> 0x7A then Some (unat c - 0x61 + 10)
               else if 0x41 \<le> c \<and> c \<le> 0x5A then Some (unat c - 0x41 + 10)
               else None)
      in case v of None \<Rightarrow> None | Some d \<Rightarrow> if d < radix then Some d else None)"

definition parseInt :: "jsstring \<Rightarrow> int option" where
  "parseInt string =
     (let s = trimStart string;
          sign = (if s \<noteq> [] \<and> hd s = 0x2D then - 1 else 1 :: int);
          s1 = (if s \<noteq> [] \<and> (hd s = 0x2B \<or> hd s = 0x2D) then tl s else s);
          hex = (2 \<le> length s1 \<and> s1 ! 0 = 0x30 \<and> (s1 ! 1 = 0x78 \<or> s1 ! 1 = 0x58));
          radix = (if hex then 16 else 10 :: nat);
          s2 = (if hex then drop 2 s1 else s1);
          z = takeWhile (\<lambda>c. digitValue radix c \<noteq> None) s2
      in if z = [] then None
         else Some (sign * int (foldl (\<lambda>n c. n * radix + the (digitValue radix c)) 0 z)))"

text \<open>
  The handler of the "Selection Limit" input:
  \<open>handleUpdate({ maxProducts: parseInt(e.target.value) || 1 })\<close>. NaN and 0 are the falsy
  numbers. \<open>handleUpdate\<close> merges the update into the collection, passes it to
  \<open>onUpdate\<close> (which is \<open>updateCollection\<close>) and notifies.
\<close>

definition parseIntOr1 :: "jsstring \<Rightarrow> int" where
  "parseIntOr1 v = (case parseInt v of None \<Rightarrow> 1 | Some n \<Rightarrow> if n = 0 then 1 else n)"

definition handleUpdate :: "(Collection \<Rightarrow> Collection) \<Rightarrow> Collection \<Rightarrow> App \<Rightarrow> App" where
  "handleUpdate updates collection app =
     notify (js ''Changes Saved'') N_success (updateCollection (updates collection) app)"

definition onChangeMaxProducts :: "jsstring \<Rightarrow> Collection \<Rightarrow> App \<Rightarrow> App" where
  "onChangeMaxProducts v collection app =
     handleUpdate (\<lambda>c. c\<lparr>c_maxProducts := parseIntOr1 v\<rparr>) collection app"

text \<open>
  The "Duplicate Entry" button of a row of the shipments table. \<open>extraSentinel\<close> is the
  literal of the source, U+CD94 U+AC00 U+0020 U+C81C U+D488.
\<close>

definition extraSentinel :: jsstring where
  "extraSentinel = [0xCD94, 0xAC00, 0x0020, 0xC81C, 0xD488]"

definition duplicateShippingEntry :: "jsstring \<Rightarrow> ShippingEntry \<Rightarrow> Collection \<Rightarrow> App \<Rightarrow> App" where
  "duplicateShippingEntry random36 entry collection app =
     (let copy = entry\<lparr>e_id := generateId random36,
                       e_submitDate := extraSentinel,
                       e_productName := [],
                       e_size := []\<rparr>
      in notify (js ''Entry duplicated (Fields cleared)'') N_success
           (updateCollection
              (collection\<lparr>c_shippingEntries := c_shippingEntries collection @ [copy]\<rparr>) app))"

section \<open>The InfluencerPage component\<close>

text \<open>
  The state hooks of \<open>InfluencerPage\<close>: \<open>view\<close> (here \<open>pview\<close>), \<open>selectedProduct\<close>,
  \<open>selectedSize\<close> and \<open>formData\<close> (fields with the prefix \<open>f_\<close>). \<open>alerts\<close> records the
  calls of \<open>window.alert\<close>, oldest first. The slide index and the scroll position only
  drive the presentation and are left out. The component reads \<open>cart\<close> and \<open>collection\<close>
  from \<open>App\<close> and writes through \<open>setCart\<close> and \<open>onSubmission\<close>, so a handler maps a
  pair of the \<open>App\<close> state and the page state to the next pair.
\<close>

datatype PageView = PV_lookbook | PV_product_detail | PV_cart | PV_success

record FormData =
  f_instagramId :: jsstring
  f_name :: jsstring
  f_phone :: jsstring
  f_address :: jsstring
  f_message :: jsstring
  f_extra :: jsstring
  f_agreed :: bool

record InfluencerPage =
  pview :: PageView
  selectedProduct :: "Product option"
  selectedSize :: jsstring
  formData :: FormData
  alerts :: "jsstring list"

type_synonym Session = "App \<times> InfluencerPage"

definition initialPage :: InfluencerPage where
  "initialPage =
     \<lparr>pview = PV_lookbook, selectedProduct = None, selectedSize = [],
      formData = \<lparr>f_instagramId = [], f_name = [], f_phone = [], f_address = [],
                  f_message = [], f_extra = [], f_agreed = False\<rparr>,
      alerts = []\<rparr>"

definition alert :: "jsstring \<Rightarrow> InfluencerPage \<Rightarrow> InfluencerPage" where
  "alert msg page = page\<lparr>alerts := alerts page @ [msg]\<rparr>"

definition handleNavigate :: "PageView \<Rightarrow> InfluencerPage \<Rightarrow> InfluencerPage" where
  "handleNavigate newView page = page\<lparr>pview := newView\<rparr>"

definition placeholderImage :: jsstring where
  "placeholderImage = js ''https://picsum.photos/seed/nuuanu/400/600''"

definition addToCart :: "Collection \<Rightarrow> Session \<Rightarrow> Session" where
  "addToCart collection s =
     (case s of (app, page) \<Rightarrow>
        (case selectedProduct page of
           None \<Rightarrow> (app, alert (js ''Please select a size preference.'') page)
         | Some chosen \<Rightarrow>
             if selectedSize page = []
             then (app, alert (js ''Please select a size preference.'') page)
             else if c_maxProducts collection \<le> int (length (cart app))
             then (app, alert (js ''You'' @ [0x27] @ js ''ve reached the selection limit of '' @
                                numberToString (c_maxProducts collection) @ js '' products.'') page)
             else
               (notify (js ''Successfully added to selection'') N_success
                  (app\<lparr>cart := cart app @
                     [\<lparr>ci_productId = p_id chosen,
                       ci_productName = p_name chosen,
                       ci_size = selectedSize page,
                       ci_image = (case p_images chosen of
                                     [] \<Rightarrow> placeholderImage
                                   | img # _ \<Rightarrow> if img = [] then placeholderImage else img)\<rparr>]\<rparr>),
                (handleNavigate PV_lookbook page)\<lparr>selectedProduct := None, selectedSize := []\<rparr>)))"

text \<open>The "Remove Item" button: \<open>setCart(cart.filter((_, i) => i !== idx))\<close>.\<close>

definition removeFromCart :: "nat \<Rightarrow> App \<Rightarrow> App" where
  "removeFromCart idx app =
     app\<lparr>cart := map snd (filter (\<lambda>(i, _). i \<noteq> idx) (enumerate 0 (cart app)))\<rparr>"

text \<open>
  \<open>onSubmission\<close> is the closure \<open>App\<close> passes to the page; \<open>activeCollection\<close> is not null
  where the page is rendered, and is passed as \<open>active\<close>.
\<close>

definition onSubmission :: "Collection \<Rightarrow> ShippingEntry list \<Rightarrow> App \<Rightarrow> App" where
  "onSubmission active newEntries app =
     updateCollection (active\<lparr>c_shippingEntries := c_shippingEntries active @ newEntries\<rparr>) app"

text \<open>
  \<open>handleSubmit\<close> calls \<open>generateId()\<close> and \<open>new Date().toISOString()\<close> once for each cart
  item. \<open>random i\<close> is the string \<open>Math.random().toString(36)\<close> drawn for item \<open>i\<close> and
  \<open>toISOString i\<close> the time stamp read for it; \<open>split('T')[0]\<close> keeps what stands before
  the first \<open>T\<close>.
\<close>

definition isoDate :: "jsstring \<Rightarrow> jsstring" where
  "isoDate stamp = takeWhile (\<lambda>c. c \<noteq> 0x54) stamp"

definition newEntry :: "FormData \<Rightarrow> jsstring \<Rightarrow> jsstring \<Rightarrow> CartItem \<Rightarrow> ShippingEntry" where
  "newEntry fd random36 stamp item =
     \<lparr>e_id = generateId random36,
      e_status = PREPARING,
      e_submitDate = isoDate stamp,
      e_instagramId = f_instagramId fd,
      e_name = f_name fd,
      e_phone = f_phone fd,
      e_address = f_address fd,
      e_message = f_message fd,
      e_extra = f_extra fd,
      e_productName = ci_productName item,
      e_size = ci_size item,
      e_quantity = 1,
      e_adminMemo = []\<rparr>"

definition handleSubmit ::
  "(nat \<Rightarrow> jsstring) \<Rightarrow> (nat \<Rightarrow> jsstring) \<Rightarrow> Collection \<Rightarrow> Session \<Rightarrow> Session" where
  "handleSubmit random toISOString active s =
     (case s of (app, page) \<Rightarrow>
        (let fd = formData page in
         if f_instagramId fd = [] \<or> f_name fd = [] \<or> f_phone fd = [] \<or> f_address fd = []
            \<or> \<not> f_agreed fd
         then (app, alert (js ''Please complete all required fields and accept the terms.'') page)
         else
           (let newEntries = map (\<lambda>(i, item). newEntry fd (random i) (toISOString i) item)
                                 (enumerate 0 (cart app))
            in ((onSubmission active newEntries app)\<lparr>cart := []\<rparr>,
                handleNavigate PV_success page))))"

text \<open>
  The events the rendered page offers. In the view \<open>success\<close> the component returns the
  confirmation screen, whose only control is "Sign Out". Otherwise the header offers the
  logo (to the lookbook), the selection button (to the cart) and logout; the lookbook
  lists the products of the collection; the product detail (shown when a product is
  selected) offers "Return to Shop", the sizes of the product and "Add to Selection"; the
  cart view offers "Continue Exploring", a remove button for each item, the form fields,
  and "Complete Submission", which is disabled while the cart is empty.
\<close>

datatype Event =
    NavigateLookbook
  | NavigateCart
  | Logout
  | SelectProduct Product
  | SelectSize jsstring
  | AddToCart
  | RemoveItem nat
  | SetInstagramId jsstring
  | SetName jsstring
  | SetPhone jsstring
  | SetAddress jsstring
  | SetMessage jsstring
  | SetExtra jsstring
  | SetAgreed bool
  | Submit

fun offered :: "Collection \<Rightarrow> Session \<Rightarrow> Event \<Rightarrow> bool" where
  "offered collection (app, page) Logout = True"
| "offered collection (app, page) NavigateLookbook = (pview page \<noteq> PV_success)"
| "offered collection (app, page) NavigateCart = (pview page \<noteq> PV_success)"
| "offered collection (app, page) (SelectProduct chosen) =
     (pview page = PV_lookbook \<and> chosen \<in> set (c_products collection))"
| "offered collection (app, page) (SelectSize sz) =
     (pview page = PV_product_detail \<and>
      (case selectedProduct page of None \<Rightarrow> False | Some chosen \<Rightarrow> sz \<in> set (p_options chosen)))"
| "offered collection (app, page) AddToCart =
     (pview page = PV_product_detail \<and> selectedProduct page \<noteq> None)"
| "offered collection (app, page) (RemoveItem idx) =
     (pview page = PV_cart \<and> idx < length (cart app))"
| "offered collection (app, page) Submit = (pview page = PV_cart \<and> cart app \<noteq> [])"
| "offered collection (app, page) _ = (pview page = PV_cart)"

fun handle ::
  "(nat \<Rightarrow> jsstring) \<Rightarrow> (nat \<Rightarrow> jsstring) \<Rightarrow> Collection \<Rightarrow> Event \<Rightarrow> Session \<Rightarrow> Session" where
  "handle random toISOString collection NavigateLookbook (app, page) =
     (app, handleNavigate PV_lookbook page)"
| "handle random toISOString collection NavigateCart (app, page) =
     (app, handleNavigate PV_cart page)"
| "handle random toISOString collection Logout (app, page) = (handleLogout app, initialPage)"
| "handle random toISOString collection (SelectProduct chosen) (app, page) =
     (app, handleNavigate PV_product_detail (page\<lparr>selectedProduct := Some chosen\<rparr>))"
| "handle random toISOString collection (SelectSize sz) (app, page) =
     (app, page\<lparr>selectedSize := sz\<rparr>)"
| "handle random toISOString collection AddToCart (app, page) = addToCart collection (app, page)"
| "handle random toISOString collection (RemoveItem idx) (app, page) =
     (removeFromCart idx app, page)"
| "handle random toISOString collection (SetInstagramId v) (app, page) =
     (app, page\<lparr>formData := (formData page)\<lparr>f_instagramId := v\<rparr>\<rparr>)"
| "handle random toISOString collection (SetName v) (app, page) =
     (app, page\<lparr>formData := (formData page)\<lparr>f_name := v\<rparr>\<rparr>)"
| "handle random toISOString collection (SetPhone v) (app, page) =
     (app, page\<lparr>formData := (formData page)\<lparr>f_phone := v\<rparr>\<rparr>)"
| "handle random toISOString collection (SetAddress v) (app, page) =
     (app, page\<lparr>formData := (formData page)\<lparr>f_address := v\<rparr>\<rparr>)"
| "handle random toISOString collection (SetMessage v) (app, page) =
     (app, page\<lparr>formData := (formData page)\<lparr>f_message := v\<rparr>\<rparr>)"
| "handle random toISOString collection (SetExtra v) (app, page) =
     (app, page\<lparr>formData := (formData page)\<lparr>f_extra := v\<rparr>\<rparr>)"
| "handle random toISOString collection (SetAgreed b) (app, page) =
     (app, page\<lparr>formData := (formData page)\<lparr>f_agreed := b\<rparr>\<rparr>)"
| "handle random toISOString collection Submit (app, page) =
     handleSubmit random toISOString collection (app, page)"

text \<open>
  One event of an influencer session. \<open>App\<close> renders the page only in the view
  \<open>influencer\<close> with an active collection, which it passes as the \<open>collection\<close> property;
  an event the page does not offer changes nothing.
\<close>

definition step :: "(nat \<Rightarrow> jsstring) \<Rightarrow> (nat \<Rightarrow> jsstring) \<Rightarrow> Event \<Rightarrow> Session \<Rightarrow> Session" where
  "step random toISOString ev s =
     (case activeCollection (fst s) of
        None \<Rightarrow> s
      | Some collection \<Rightarrow>
          if view (fst s) = V_influencer \<and> offered collection s ev
          then handle random toISOString collection ev s
          else s)"

definition run :: "(nat \<Rightarrow> jsstring) \<Rightarrow> (nat \<Rightarrow> jsstring) \<Rightarrow> Event list \<Rightarrow> Session \<Rightarrow> Session" where
  "run random toISOString evs s = foldl (\<lambda>s ev. step random toISOString ev s) s evs"

text \<open>
  The bound of an influencer session as a predicate: the cart holds at most \<open>m\<close> items
  and the active collection, while there is one, has \<open>m\<close> as its \<open>maxProducts\<close>.
\<close>

definition sessionInv :: "int \<Rightarrow> Session \<Rightarrow> bool" where
  "sessionInv m s \<longleftrightarrow>
     int (length (cart (fst s))) \<le> m \<and>
     (case activeCollection (fst s) of None \<Rightarrow> True | Some c \<Rightarrow> c_maxProducts c = m)"

section \<open>CSV export (utils)\<close>

text \<open>
  \<open>downloadCSV\<close> takes \<open>data: any[]\<close> and reads eight properties of each item, so an item
  is a record of eight runtime values (\<open>JUndefined\<close> for a property that is absent). The
  falsy values are \<open>undefined\<close>, \<open>null\<close>, \<open>false\<close>, \<open>0\<close> (NaN is outside the model) and the
  empty string. \<open>jsString\<close> is the conversion \<open>String(v)\<close>.
\<close>

datatype jsval = JUndefined | JNull | JBoolean bool | JNumber int | JString jsstring

fun truthy :: "jsval \<Rightarrow> bool" where
  "truthy JUndefined = False"
| "truthy JNull = False"
| "truthy (JBoolean b) = b"
| "truthy (JNumber n) = (n \<noteq> 0)"
| "truthy (JString s) = (s \<noteq> [])"

fun jsString :: "jsval \<Rightarrow> jsstring" where
  "jsString JUndefined = js ''undefined''"
| "jsString JNull = js ''null''"
| "jsString (JBoolean b) = (if b then js ''true'' else js ''false'')"
| "jsString (JNumber n) = numberToString n"
| "jsString (JString s) = s"

record Item =
  i_instagramId :: jsval
  i_name :: jsval
  i_phone :: jsval
  i_address :: jsval
  i_productName :: jsval
  i_size :: jsval
  i_quantity :: jsval
  i_message :: jsval

text \<open>A \<open>ShippingEntry\<close> seen as an item: strings, and the number \<open>quantity\<close>.\<close>

definition itemOfEntry :: "ShippingEntry \<Rightarrow> Item" where
  "itemOfEntry e =
     \<lparr>i_instagramId = JString (e_instagramId e),
      i_name = JString (e_name e),
      i_phone = JString (e_phone e),
      i_address = JString (e_address e),
      i_productName = JString (e_productName e),
      i_size = JString (e_size e),
      i_quantity = JNumber (e_quantity e),
      i_message = JString (e_message e)\<rparr>"

text \<open>\<open>Array.prototype.join\<close> on an array of strings.\<close>

fun join :: "jsstring \<Rightarrow> jsstring list \<Rightarrow> jsstring" where
  "join sep [] = []"
| "join sep [x] = x"
| "join sep (x # y # ys) = x @ sep @ join sep (y # ys)"

definition customHeaders :: "jsstring list" where
  "customHeaders =
     [js ''instagram ID'',
      [0xC774, 0xB984],
      [0xC804, 0xD654, 0xBC88, 0xD638],
      [0xBC1B, 0xB294, 0xBD84, 0xAE30, 0xD0C0, 0xC5F0, 0xB77D, 0xCC98],
      [0xBC1B, 0xB294, 0xBD84, 0xC6B0, 0xD3B8, 0xBC88, 0xD638],
      [0xC8FC, 0xC18C],
      [0xC81C, 0xD488, 0xBA85],
      [0xC0AC, 0xC774, 0xC988],
      [0xC218, 0xB7C9],
      [0xBC30, 0xC1A1, 0xBA54, 0xC138, 0xC9C0, 0x0031]]"

text \<open>
  \<open>escape\<close>: \<open>String(val || "").replace(/"/g, '""')\<close> between two double quotes
  (code unit \<open>0x22\<close>).
\<close>

definition escape :: "jsval \<Rightarrow> jsstring" where
  "escape val =
     (let s = concat (map (\<lambda>c. if c = 0x22 then [0x22, 0x22] else [c])
                         (jsString (if truthy val then val else JString [])))
      in [0x22] @ s @ [0x22])"

definition row :: "Item \<Rightarrow> jsstring list" where
  "row item =
     [escape (i_instagramId item),
      escape (i_name item),
      escape (i_phone item),
      escape (JString []),
      escape (JString []),
      escape (i_address item),
      escape (i_productName item),
      escape (i_size item),
      escape (if truthy (i_quantity item) then i_quantity item else JNumber 1),
      escape (i_message item)]"

definition csvString :: "Item list \<Rightarrow> jsstring" where
  "csvString data =
     join [0x0A] (join (js '','') customHeaders # map (\<lambda>item. join (js '','') (row item)) data)"

text \<open>
  \<open>downloadCSV\<close> offers a file for download or does nothing. The result is the file name
  with the text of the blob, the code unit \<open>0xFEFF\<close> followed by \<open>csvString\<close>,
  or \<open>None\<close> when nothing is emitted.
  The blob holds the UTF-8 encoding of that text; the encoding is not modelled.
\<close>

definition downloadCSV :: "jsstring \<Rightarrow> Item list \<Rightarrow> (jsstring \<times> jsstring) option" where
  "downloadCSV filename data =
     (if length data = 0 then None else Some (filename, [0xFEFF] @ csvString data))"

subsection \<open>A reader of CSV files\<close>

text \<open>
  The reference reader against which the export is checked, after RFC 4180: records end
  with LF or CRLF, fields are separated by commas, a field that starts with a double
  quote runs to the closing quote, and inside it two double quotes stand for one. A byte
  order mark at the start of the text is skipped. The reader is a state machine over the
  code units; its state holds the field and the record being read and the records read.
\<close>

datatype CsvState = StartRecord | StartField | InField | InQuoted | QuoteInQuoted | AfterCR

type_synonym CsvReader = "CsvState \<times> jsstring \<times> jsstring list \<times> jsstring list list"

definition csvStart :: "jsstring list \<Rightarrow> jsstring list list \<Rightarrow> jschar \<Rightarrow> CsvReader" where
  "csvStart rec recs c =
     (if c = 0x22 then (InQuoted, [], rec, recs)
      else if c = 0x2C then (StartField, [], rec @ [[]], recs)
      else if c = 0x0A then (StartRecord, [], [], recs @ [rec @ [[]]])
      else if c = 0x0D then (AfterCR, [], [], recs @ [rec @ [[]]])
      else (InField, [c], rec, recs))"

fun csvStep :: "CsvReader \<Rightarrow> jschar \<Rightarrow> CsvReader" where
  "csvStep (StartRecord, field, rec, recs) c =
     (if c = 0x0A then (StartRecord, [], [], recs)
      else if c = 0x0D then (AfterCR, [], [], recs)
      else csvStart [] recs c)"
| "csvStep (AfterCR, field, rec, recs) c =
     (if c = 0x0A then (StartRecord, [], [], recs)
      else if c = 0x0D then (AfterCR, [], [], recs)
      else csvStart [] recs c)"
| "csvStep (StartField, field, rec, recs) c = csvStart rec recs c"
| "csvStep (InField, field, rec, recs) c =
     (if c = 0x2C then (StartField, [], rec @ [field], recs)
      else if c = 0x0A then (StartRecord, [], [], recs @ [rec @ [field]])
      else if c = 0x0D then (AfterCR, [], [], recs @ [rec @ [field]])
      else (InField, field @ [c], rec, recs))"
| "csvStep (InQuoted, field, rec, recs) c =
     (if c = 0x22 then (QuoteInQuoted, field, rec, recs)
      else (InQuoted, field @ [c], rec, recs))"
| "csvStep (QuoteInQuoted, field, rec, recs) c =
     (if c = 0x22 then (InQuoted, field @ [0x22], rec, recs)
      else if c = 0x2C then (StartField, [], rec @ [field], recs)
      else if c = 0x0A then (StartRecord, [], [], recs @ [rec @ [field]])
      else if c = 0x0D then (AfterCR, [], [], recs @ [rec @ [field]])
      else (InField, field @ [c], rec, recs))"

fun csvFinish :: "CsvReader \<Rightarrow> jsstring list list" where
  "csvFinish (StartRecord, field, rec, recs) = recs"
| "csvFinish (AfterCR, field, rec, recs) = recs"
| "csvFinish (st, field, rec, recs) = recs @ [rec @ [field]]"

definition stripBOM :: "jsstring \<Rightarrow> jsstring" where
  "stripBOM s = (case s of [] \<Rightarrow> [] | c # cs \<Rightarrow> if c = 0xFEFF then cs else s)"

definition csvRead :: "jsstring \<Rightarrow> jsstring list list" where
  "csvRead text = csvFinish (foldl csvStep (StartRecord, [], [], []) (stripBOM text))"

text \<open>A text between double quotes, with its double quotes doubled.\<close>

definition quote :: "jsstring \<Rightarrow> jsstring" where
  "quote s = [0x22] @ concat (map (\<lambda>c. if c = 0x22 then [0x22, 0x22] else [c]) s) @ [0x22]"

text \<open>The texts of the ten columns of an item, before quoting.\<close>

definition cells :: "Item \<Rightarrow> jsstring list" where
  "cells item =
     [jsString (if truthy (i_instagramId item) then i_instagramId item else JString []),
      jsString (if truthy (i_name item) then i_name item else JString []),
      jsString (if truthy (i_phone item) then i_phone item else JString []),
      [],
      [],
      jsString (if truthy (i_address item) then i_address item else JString []),
      jsString (if truthy (i_productName item) then i_productName item else JString []),
      jsString (if truthy (i_size item) then i_size item else JString []),
      jsString (if truthy (i_quantity item) then i_quantity item else JNumber 1),
      jsString (if truthy (i_message item) then i_message item else JString [])]"

section \<open>The persisted document (App.tsx, STORAGE_KEY)\<close>

text \<open>
  \<open>JSON.parse\<close> returns a value of any shape; TypeScript does not check it against
  \<open>AppState\<close>. The values it can return are modelled by \<open>json\<close>. An object is the list of
  its properties in insertion order (property names that are array indices, which an
  object enumerates first, do not occur in the documents of the application and are
  outside the model). Numbers are integers, as \<open>maxProducts\<close> and \<open>quantity\<close> are.
\<close>

datatype json =
    JsNull
  | JsBool bool
  | JsNum int
  | JsStr jsstring
  | JsArr "json list"
  | JsObj "(jsstring \<times> json) list"

subsection \<open>The document as a runtime value\<close>

text \<open>
  \<open>toJSON\<close> is the object that a record of the data model stands for, with its
  properties in the order in which the source writes them; \<open>logoUrl\<close> is present only when
  set. The values of the enum \<open>ShippingStatus\<close> are the strings U+C900 U+BE44 U+C911
  (\<open>PREPARING\<close>) and U+BC30 U+C1A1 U+C644 U+B8CC (\<open>SHIPPED\<close>).
\<close>

definition ShippingStatus_toJSON :: "ShippingStatus \<Rightarrow> json" where
  "ShippingStatus_toJSON s =
     (case s of PREPARING \<Rightarrow> JsStr [0xC900, 0xBE44, 0xC911]
              | SHIPPED \<Rightarrow> JsStr [0xBC30, 0xC1A1, 0xC644, 0xB8CC])"

definition Product_toJSON :: "Product \<Rightarrow> json" where
  "Product_toJSON p =
     JsObj [(js ''id'', JsStr (p_id p)),
            (js ''name'', JsStr (p_name p)),
            (js ''price'', JsStr (p_price p)),
            (js ''options'', JsArr (map JsStr (p_options p))),
            (js ''description'', JsStr (p_description p)),
            (js ''images'', JsArr (map JsStr (p_images p)))]"

definition ShippingEntry_toJSON :: "ShippingEntry \<Rightarrow> json" where
  "ShippingEntry_toJSON e =
     JsObj [(js ''id'', JsStr (e_id e)),
            (js ''status'', ShippingStatus_toJSON (e_status e)),
            (js ''submitDate'', JsStr (e_submitDate e)),
            (js ''instagramId'', JsStr (e_instagramId e)),
            (js ''name'', JsStr (e_name e)),
            (js ''phone'', JsStr (e_phone e)),
            (js ''address'', JsStr (e_address e)),
            (js ''message'', JsStr (e_message e)),
            (js ''extra'', JsStr (e_extra e)),
            (js ''productName'', JsStr (e_productName e)),
            (js ''size'', JsStr (e_size e)),
            (js ''quantity'', JsNum (e_quantity e)),
            (js ''adminMemo'', JsStr (e_adminMemo e))]"

definition Collection_toJSON :: "Collection \<Rightarrow> json" where
  "Collection_toJSON c =
     JsObj ([(js ''id'', JsStr (c_id c)),
             (js ''name'', JsStr (c_name c)),
             (js ''accessCode'', JsStr (c_accessCode c)),
             (js ''maxProducts'', JsNum (c_maxProducts c))] @
            (case c_logoUrl c of None \<Rightarrow> [] | Some u \<Rightarrow> [(js ''logoUrl'', JsStr u)]) @
            [(js ''lookbookImages'', JsArr (map JsStr (c_lookbookImages c))),
             (js ''descriptionTitle'', JsStr (c_descriptionTitle c)),
             (js ''descriptionBody'', JsStr (c_descriptionBody c)),
             (js ''products'', JsArr (map Product_toJSON (c_products c))),
             (js ''shippingEntries'', JsArr (map ShippingEntry_toJSON (c_shippingEntries c)))])"

definition toJSON :: "AppState \<Rightarrow> json" where
  "toJSON st =
     JsObj [(js ''collections'', JsArr (map Collection_toJSON (collections st))),
            (js ''activeCollectionId'',
               (case activeCollectionId st of None \<Rightarrow> JsNull | Some i \<Rightarrow> JsStr i)),
            (js ''adminAccessCode'', JsStr (adminAccessCode st))]"

text \<open>
  \<open>asAppState\<close> reads a runtime value as an \<open>AppState\<close>: it is \<open>None\<close> for a value that
  does not have the structure of the interfaces of \<open>types.ts\<close>.
\<close>

definition property :: "(jsstring \<times> json) list \<Rightarrow> string \<Rightarrow> json option" where
  "property ps k = map_of ps (js k)"

definition asString :: "json option \<Rightarrow> jsstring option" where
  "asString v = (case v of Some (JsStr s) \<Rightarrow> Some s | _ \<Rightarrow> None)"

definition asNumber :: "json option \<Rightarrow> int option" where
  "asNumber v = (case v of Some (JsNum n) \<Rightarrow> Some n | _ \<Rightarrow> None)"

definition asArray :: "(json \<Rightarrow> 'a option) \<Rightarrow> json option \<Rightarrow> 'a list option" where
  "asArray f v = (case v of Some (JsArr xs) \<Rightarrow> those (map f xs) | _ \<Rightarrow> None)"

definition asStrings :: "json option \<Rightarrow> jsstring list option" where
  "asStrings v = asArray (\<lambda>x. asString (Some x)) v"

definition asShippingStatus :: "json option \<Rightarrow> ShippingStatus option" where
  "asShippingStatus v =
     (if v = Some (ShippingStatus_toJSON PREPARING) then Some PREPARING
      else if v = Some (ShippingStatus_toJSON SHIPPED) then Some SHIPPED
      else None)"

definition asProduct :: "json \<Rightarrow> Product option" where
  "asProduct v =
     (case v of
        JsObj ps \<Rightarrow>
          do {
            i \<leftarrow> asString (property ps ''id'');
            n \<leftarrow> asString (property ps ''name'');
            pr \<leftarrow> asString (property ps ''price'');
            os \<leftarrow> asStrings (property ps ''options'');
            d \<leftarrow> asString (property ps ''description'');
            ims \<leftarrow> asStrings (property ps ''images'');
            Some \<lparr>p_id = i, p_name = n, p_price = pr, p_options = os,
                  p_description = d, p_images = ims\<rparr>
          }
      | _ \<Rightarrow> None)"

definition asShippingEntry :: "json \<Rightarrow> ShippingEntry option" where
  "asShippingEntry v =
     (case v of
        JsObj ps \<Rightarrow>
          do {
            i \<leftarrow> asString (property ps ''id'');
            st \<leftarrow> asShippingStatus (property ps ''status'');
            sd \<leftarrow> asString (property ps ''submitDate'');
            ig \<leftarrow> asString (property ps ''instagramId'');
            n \<leftarrow> asString (property ps ''name'');
            ph \<leftarrow> asString (property ps ''phone'');
            ad \<leftarrow> asString (property ps ''address'');
            ms \<leftarrow> asString (property ps ''message'');
            ex \<leftarrow> asString (property ps ''extra'');
            pn \<leftarrow> asString (property ps ''productName'');
            sz \<leftarrow> asString (property ps ''size'');
            q \<leftarrow> asNumber (property ps ''quantity'');
            am \<leftarrow> asString (property ps ''adminMemo'');
            Some \<lparr>e_id = i, e_status = st, e_submitDate = sd, e_instagramId = ig,
                  e_name = n, e_phone = ph, e_address = ad, e_message = ms, e_extra = ex,
                  e_productName = pn, e_size = sz, e_quantity = q, e_adminMemo = am\<rparr>
          }
      | _ \<Rightarrow> None)"

text \<open>An optional property is absent or has the type of the interface.\<close>

definition asOptionalString :: "json option \<Rightarrow> jsstring option option" where
  "asOptionalString v =
     (case v of None \<Rightarrow> Some None | Some (JsStr s) \<Rightarrow> Some (Some s) | _ \<Rightarrow> None)"

definition asStringOrNull :: "json option \<Rightarrow> jsstring option option" where
  "asStringOrNull v =
     (case v of Some JsNull \<Rightarrow> Some None | Some (JsStr s) \<Rightarrow> Some (Some s) | _ \<Rightarrow> None)"

definition asCollection :: "json \<Rightarrow> Collection option" where
  "asCollection v =
     (case v of
        JsObj ps \<Rightarrow>
          do {
            i \<leftarrow> asString (property ps ''id'');
            n \<leftarrow> asString (property ps ''name'');
            ac \<leftarrow> asString (property ps ''accessCode'');
            mp \<leftarrow> asNumber (property ps ''maxProducts'');
            lu \<leftarrow> asOptionalString (property ps ''logoUrl'');
            lb \<leftarrow> asStrings (property ps ''lookbookImages'');
            dt \<leftarrow> asString (property ps ''descriptionTitle'');
            db \<leftarrow> asString (property ps ''descriptionBody'');
            prs \<leftarrow> asArray asProduct (property ps ''products'');
            es \<leftarrow> asArray asShippingEntry (property ps ''shippingEntries'');
            Some \<lparr>c_id = i, c_name = n, c_accessCode = ac, c_maxProducts = mp,
                  c_logoUrl = lu, c_lookbookImages = lb,
                  c_descriptionTitle = dt, c_descriptionBody = db,
                  c_products = prs, c_shippingEntries = es\<rparr>
          }
      | _ \<Rightarrow> None)"

definition asAppState :: "json \<Rightarrow> AppState option" where
  "asAppState v =
     (case v of
        JsObj ps \<Rightarrow>
          do {
            cs \<leftarrow> asArray asCollection (property ps ''collections'');
            a \<leftarrow> asStringOrNull (property ps ''activeCollectionId'');
            ad \<leftarrow> asString (property ps ''adminAccessCode'');
            Some \<lparr>collections = cs, activeCollectionId = a, adminAccessCode = ad\<rparr>
          }
      | _ \<Rightarrow> None)"

subsection \<open>load and save\<close>

text \<open>
  The initial state of \<open>App\<close> (\<open>load\<close>) and the effect that writes the document after
  every change of \<open>state\<close> (\<open>save\<close>). \<open>JSON.parse\<close> and \<open>JSON.stringify\<close> are functions of
  the platform; \<open>load\<close> and \<open>save\<close> take them as the parameters \<open>parse\<close> (\<open>None\<close> when
  \<open>JSON.parse\<close> throws) and \<open>stringify\<close>. \<open>load\<close> returns the initial state together with
  the lines written by \<open>console.error\<close>. A write that the substrate rejects is not
  modelled.
\<close>

definition STORAGE_KEY :: jsstring where
  "STORAGE_KEY = js ''nuuanu_app_state''"

definition defaultState :: AppState where
  "defaultState = \<lparr>collections = [], activeCollectionId = None, adminAccessCode = js ''admin''\<rparr>"

definition load :: "(jsstring \<Rightarrow> json option) \<Rightarrow> Storage \<Rightarrow> json \<times> jsstring list" where
  "load parse localStorage =
     (case getItem localStorage STORAGE_KEY of
        None \<Rightarrow> (toJSON defaultState, [])
      | Some saved \<Rightarrow>
          if saved = [] then (toJSON defaultState, [])
          else (case parse saved of
                  Some v \<Rightarrow> (v, [])
                | None \<Rightarrow> (toJSON defaultState, [js ''Failed to parse storage''])))"

definition save :: "(json \<Rightarrow> jsstring) \<Rightarrow> AppState \<Rightarrow> Storage \<Rightarrow> Storage" where
  "save stringify st localStorage = setItem STORAGE_KEY (stringify (toJSON st)) localStorage"

subsection \<open>A JSON reader and writer\<close>

text \<open>
  \<open>JSON_parse\<close> and \<open>JSON_stringify\<close> follow ECMA-404 and ECMA-262 (25.5) on the values
  of \<open>json\<close>; they are the instances of \<open>parse\<close> and \<open>stringify\<close> on which \<open>load\<close> and
  \<open>save\<close> are run. A number with a fraction or an exponent is read when its value is an
  integer; other numbers are outside the model. The reader descends into arrays and
  objects with a bound on the depth of its calls (\<open>OutOfFuel\<close> when the bound is reached),
  and \<open>JSON_parse\<close> starts it with a bound that is never reached.
\<close>

datatype 'a parsed = Parsed 'a | SyntaxError | OutOfFuel

definition isJsonWhiteSpace :: "jschar \<Rightarrow> bool" where
  "isJsonWhiteSpace c \<longleftrightarrow> c = 0x20 \<or> c = 0x09 \<or> c = 0x0A \<or> c = 0x0D"

definition skipWhiteSpace :: "jsstring \<Rightarrow> jsstring" where
  "skipWhiteSpace s = dropWhile isJsonWhiteSpace s"

definition isDigit :: "jschar \<Rightarrow> bool" where
  "isDigit c \<longleftrightarrow> 0x30 \<le> c \<and> c \<le> 0x39"

definition digitsValue :: "jsstring \<Rightarrow> nat" where
  "digitsValue ds = foldl (\<lambda>n c. n * 10 + (unat c - 0x30)) 0 ds"

definition hex4 :: "jsstring \<Rightarrow> jschar option" where
  "hex4 s =
     (if length s = 4 \<and> list_all (\<lambda>c. digitValue 16 c \<noteq> None) s
      then Some (of_nat (foldl (\<lambda>n c. n * 16 + the (digitValue 16 c)) 0 s))
      else None)"

text \<open>
  The characters of a string after its opening quote, up to the closing quote.
  \<open>simpleEscape\<close> is the character that stands after a backslash for itself or for a
  control character.
\<close>

definition simpleEscape :: "jschar \<Rightarrow> jschar option" where
  "simpleEscape e =
     (if e = 0x22 \<or> e = 0x5C \<or> e = 0x2F then Some e
      else if e = 0x62 then Some 0x08
      else if e = 0x66 then Some 0x0C
      else if e = 0x6E then Some 0x0A
      else if e = 0x72 then Some 0x0D
      else if e = 0x74 then Some 0x09
      else None)"

fun parseString :: "jsstring \<Rightarrow> jsstring \<Rightarrow> (jsstring \<times> jsstring) option" where
  "parseString acc [] = None"
| "parseString acc (c # cs) =
     (if c = 0x22 then Some (acc, cs)
      else if c < 0x20 then None
      else if c = 0x5C then
        (case cs of
           [] \<Rightarrow> None
         | e # es \<Rightarrow>
             if e = 0x75 then
               (case hex4 (take 4 es) of
                  None \<Rightarrow> None
                | Some w \<Rightarrow> parseString (acc @ [w]) (drop 4 es))
             else
               (case simpleEscape e of
                  None \<Rightarrow> None
                | Some x \<Rightarrow> parseString (acc @ [x]) es))
      else parseString (acc @ [c]) cs)"

definition parseNumber :: "jsstring \<Rightarrow> (json \<times> jsstring) option" where
  "parseNumber s =
     (let neg = (s \<noteq> [] \<and> hd s = 0x2D);
          s1 = (if neg then tl s else s);
          ds = takeWhile isDigit s1;
          r1 = dropWhile isDigit s1;
          hasFrac = (r1 \<noteq> [] \<and> hd r1 = 0x2E);
          fs = (if hasFrac then takeWhile isDigit (tl r1) else []);
          r2 = (if hasFrac then dropWhile isDigit (tl r1) else r1);
          hasExp = (r2 \<noteq> [] \<and> (hd r2 = 0x65 \<or> hd r2 = 0x45));
          r3 = (if hasExp then tl r2 else r2);
          eneg = (hasExp \<and> r3 \<noteq> [] \<and> hd r3 = 0x2D);
          r4 = (if hasExp \<and> r3 \<noteq> [] \<and> (hd r3 = 0x2B \<or> hd r3 = 0x2D) then tl r3 else r3);
          es = (if hasExp then takeWhile isDigit r4 else []);
          rest = (if hasExp then dropWhile isDigit r4 else r2);
          m = int (digitsValue (ds @ fs));
          shift = (if eneg then - int (digitsValue es) else int (digitsValue es)) - int (length fs);
          sign = (if neg then - 1 else 1 :: int)
      in if ds = [] \<or> (1 < length ds \<and> hd ds = 0x30) \<or> (hasFrac \<and> fs = []) \<or> (hasExp \<and> es = [])
         then None
         else if 0 \<le> shift then Some (JsNum (sign * m * 10 ^ nat shift), rest)
         else if m mod 10 ^ nat (- shift) = 0
         then Some (JsNum (sign * (m div 10 ^ nat (- shift))), rest)
         else None)"

text \<open>
  A property read for an object: a name that the object already has keeps its place and
  takes the new value.
\<close>

definition assign :: "'k \<Rightarrow> 'v \<Rightarrow> ('k \<times> 'v) list \<Rightarrow> ('k \<times> 'v) list" where
  "assign k v ps =
     (if k \<in> fst ` set ps
      then map (\<lambda>(k', v'). if k' = k then (k', v) else (k', v')) ps
      else ps @ [(k, v)])"

fun parseValue :: "nat \<Rightarrow> jsstring \<Rightarrow> (json \<times> jsstring) parsed"
  and parseElements :: "nat \<Rightarrow> json list \<Rightarrow> jsstring \<Rightarrow> (json list \<times> jsstring) parsed"
  and parseMembers ::
    "nat \<Rightarrow> (jsstring \<times> json) list \<Rightarrow> jsstring \<Rightarrow> ((jsstring \<times> json) list \<times> jsstring) parsed"
where
  "parseValue 0 s = OutOfFuel"
| "parseValue (Suc n) s =
     (case skipWhiteSpace s of
        [] \<Rightarrow> SyntaxError
      | c # cs \<Rightarrow>
          if c = 0x7B then
            (case skipWhiteSpace cs of
               [] \<Rightarrow> SyntaxError
             | d # ds \<Rightarrow>
                 if d = 0x7D then Parsed (JsObj [], ds)
                 else (case parseMembers n [] cs of
                         Parsed (ms, r) \<Rightarrow> Parsed (JsObj ms, r)
                       | SyntaxError \<Rightarrow> SyntaxError
                       | OutOfFuel \<Rightarrow> OutOfFuel))
          else if c = 0x5B then
            (case skipWhiteSpace cs of
               [] \<Rightarrow> SyntaxError
             | d # ds \<Rightarrow>
                 if d = 0x5D then Parsed (JsArr [], ds)
                 else (case parseElements n [] cs of
                         Parsed (vs, r) \<Rightarrow> Parsed (JsArr vs, r)
                       | SyntaxError \<Rightarrow> SyntaxError
                       | OutOfFuel \<Rightarrow> OutOfFuel))
          else if c = 0x22 then
            (case parseString [] cs of
               Some (str, r) \<Rightarrow> Parsed (JsStr str, r)
             | None \<Rightarrow> SyntaxError)
          else if take 4 (c # cs) = js ''true'' then Parsed (JsBool True, drop 3 cs)
          else if take 5 (c # cs) = js ''false'' then Parsed (JsBool False, drop 4 cs)
          else if take 4 (c # cs) = js ''null'' then Parsed (JsNull, drop 3 cs)
          else (case parseNumber (c # cs) of
                  Some (v, r) \<Rightarrow> Parsed (v, r)
                | None \<Rightarrow> SyntaxError))"
| "parseElements 0 acc s = OutOfFuel"
| "parseElements (Suc n) acc s =
     (case parseValue n s of
        Parsed (v, r) \<Rightarrow>
          (case skipWhiteSpace r of
             [] \<Rightarrow> SyntaxError
           | c # cs \<Rightarrow>
               if c = 0x2C then parseElements n (acc @ [v]) cs
               else if c = 0x5D then Parsed (acc @ [v], cs)
               else SyntaxError)
      | SyntaxError \<Rightarrow> SyntaxError
      | OutOfFuel \<Rightarrow> OutOfFuel)"
| "parseMembers 0 acc s = OutOfFuel"
| "parseMembers (Suc n) acc s =
     (case skipWhiteSpace s of
        [] \<Rightarrow> SyntaxError
      | q # cs \<Rightarrow>
          if q \<noteq> 0x22 then SyntaxError
          else
            (case parseString [] cs of
               None \<Rightarrow> SyntaxError
             | Some (k, r) \<Rightarrow>
                 (case skipWhiteSpace r of
                    [] \<Rightarrow> SyntaxError
                  | colon # r2 \<Rightarrow>
                      if colon \<noteq> 0x3A then SyntaxError
                      else
                        (case parseValue n r2 of
                           Parsed (v, r3) \<Rightarrow>
                             (case skipWhiteSpace r3 of
                                [] \<Rightarrow> SyntaxError
                              | c # r4 \<Rightarrow>
                                  if c = 0x2C then parseMembers n (assign k v acc) r4
                                  else if c = 0x7D then Parsed (assign k v acc, r4)
                                  else SyntaxError)
                         | SyntaxError \<Rightarrow> SyntaxError
                         | OutOfFuel \<Rightarrow> OutOfFuel))))"

definition JSON_parse :: "jsstring \<Rightarrow> json option" where
  "JSON_parse text =
     (case parseValue (2 * length text + 2) text of
        Parsed (v, r) \<Rightarrow> if skipWhiteSpace r = [] then Some v else None
      | SyntaxError \<Rightarrow> None
      | OutOfFuel \<Rightarrow> None)"

text \<open>
  \<open>QuoteJSONString\<close>: the double quote, the backslash and the control characters are
  escaped, and a surrogate that is not part of a pair is written as a backslash, the
  letter u and its four hexadecimal digits.
\<close>

definition hexDigit :: "nat \<Rightarrow> jschar" where
  "hexDigit d = (if d < 10 then of_nat (0x30 + d) else of_nat (0x57 + d))"

definition unicodeEscape :: "jschar \<Rightarrow> jsstring" where
  "unicodeEscape c =
     [0x5C, 0x75, hexDigit (unat c div 4096), hexDigit (unat c div 256 mod 16),
      hexDigit (unat c div 16 mod 16), hexDigit (unat c mod 16)]"

fun quoteJSONChars :: "jsstring \<Rightarrow> jsstring" where
  "quoteJSONChars [] = []"
| "quoteJSONChars (c # cs) =
     (if c = 0x08 then [0x5C, 0x62] @ quoteJSONChars cs
      else if c = 0x09 then [0x5C, 0x74] @ quoteJSONChars cs
      else if c = 0x0A then [0x5C, 0x6E] @ quoteJSONChars cs
      else if c = 0x0C then [0x5C, 0x66] @ quoteJSONChars cs
      else if c = 0x0D then [0x5C, 0x72] @ quoteJSONChars cs
      else if c = 0x22 then [0x5C, 0x22] @ quoteJSONChars cs
      else if c = 0x5C then [0x5C, 0x5C] @ quoteJSONChars cs
      else if c < 0x20 then unicodeEscape c @ quoteJSONChars cs
      else if 0xD800 \<le> c \<and> c \<le> 0xDBFF then
        (case cs of
           [] \<Rightarrow> unicodeEscape c
         | d # ds \<Rightarrow>
             if 0xDC00 \<le> d \<and> d \<le> 0xDFFF then [c, d] @ quoteJSONChars ds
             else unicodeEscape c @ quoteJSONChars cs)
      else if 0xDC00 \<le> c \<and> c \<le> 0xDFFF then unicodeEscape c @ quoteJSONChars cs
      else c # quoteJSONChars cs)"

definition quoteJSONString :: "jsstring \<Rightarrow> jsstring" where
  "quoteJSONString s = [0x22] @ quoteJSONChars s @ [0x22]"

fun JSON_stringify :: "json \<Rightarrow> jsstring" where
  "JSON_stringify JsNull = js ''null''"
| "JSON_stringify (JsBool b) = (if b then js ''true'' else js ''false'')"
| "JSON_stringify (JsNum n) = numberToString n"
| "JSON_stringify (JsStr s) = quoteJSONString s"
| "JSON_stringify (JsArr vs) = js ''['' @ join (js '','') (map JSON_stringify vs) @ js '']''"
| "JSON_stringify (JsObj ps) =
     js ''{'' @
     join (js '','') (map (\<lambda>p. quoteJSONString (fst p) @ js '':'' @ JSON_stringify (snd p)) ps) @
     js ''}''"



section \<open>Example inputs\<close>

text \<open>
  Three collections: the second repeats the access code of the first in another case, and
  the third has the administrator's code as its access code.
\<close>

definition exProduct :: Product where
  "exProduct =
     \<lparr>p_id = js ''p1'', p_name = js ''Tee'', p_price = js ''0'',
      p_options = [js ''S'', js ''M''], p_description = [], p_images = []\<rparr>"

definition exCollection :: Collection where
  "exCollection =
     \<lparr>c_id = js ''c1'', c_name = js ''Spring'', c_accessCode = js ''Abc123'',
      c_maxProducts = 1, c_logoUrl = None, c_lookbookImages = [],
      c_descriptionTitle = [], c_descriptionBody = [],
      c_products = [exProduct], c_shippingEntries = []\<rparr>"

definition exApp :: App where
  "exApp =
     \<lparr>state = \<lparr>collections = [exCollection,
                               exCollection\<lparr>c_id := js ''c2'', c_accessCode := js ''ABC123''\<rparr>,
                               exCollection\<lparr>c_id := js ''c3'', c_accessCode := js ''ADMIN''\<rparr>],
               activeCollectionId = None,
               adminAccessCode = js ''admin''\<rparr>,
      currentUser = None, activeCollection = None, accessCodeInput = [],
      error = None, success = None, cart = [], view = V_login,
      adminSubView = SV_settings, isCreateModalOpen = False, newCollectionName = []\<rparr>"

definition exSession :: Session where
  "exSession =
     (exApp\<lparr>activeCollection := Some exCollection, currentUser := Some Influencer,
            view := V_influencer\<rparr>,
      initialPage)"

definition exEvents :: "Event list" where
  "exEvents = [SelectProduct exProduct, SelectSize (js ''M''), AddToCart,
               SelectProduct exProduct, SelectSize (js ''M''), AddToCart]"

definition exItem :: CartItem where
  "exItem = \<lparr>ci_productId = js ''p1'', ci_productName = js ''Tee'', ci_size = js ''M'',
              ci_image = placeholderImage\<rparr>"

definition exForm :: FormData where
  "exForm = \<lparr>f_instagramId = js ''abc'', f_name = js ''Kim'', f_phone = js ''010-1234-5678'',
              f_address = js ''Seoul'', f_message = js ''fast please'', f_extra = [],
              f_agreed = True\<rparr>"

definition exRandom :: "nat \<Rightarrow> jsstring" where
  "exRandom i = js ''0.4fzyo82mvyr''"

definition exClock :: "nat \<Rightarrow> jsstring" where
  "exClock i = js ''2024-05-01T12:34:56.789Z''"

definition exEntry :: ShippingEntry where
  "exEntry =
     \<lparr>e_id = js ''4fzyo82mv'', e_status = SHIPPED, e_submitDate = js ''2024-05-01'',
      e_instagramId = js ''abc'', e_name = js ''Kim'', e_phone = js ''010-1234-5678'',
      e_address = js ''Seoul'', e_message = js ''fast please'', e_extra = js ''x'',
      e_productName = js ''Tee'', e_size = js ''M'', e_quantity = 2,
      e_adminMemo = js ''vip''\<rparr>"

section \<open>Access resolution\<close>

lemma find_first_match:
  "\<lbrakk>\<forall>x\<in>set pre. \<not> P x; P c\<rbrakk> \<Longrightarrow> find P (pre @ c # post) = Some c"
  by (induction pre) auto

lemma find_no_match: "(\<forall>x\<in>set xs. \<not> P x) \<Longrightarrow> find P xs = None"
  by (induction xs) auto

text \<open>
  C1. \<open>handleLogin\<close> compares the trimmed input, in lower case, with the stored codes in
  lower case. When it equals the administrator's code the user becomes the administrator,
  whatever the collections are. Otherwise the first collection in array order whose
  access code matches becomes the active collection of an influencer. When nothing
  matches only the error toast is set. The persisted document is never changed, and two
  inputs that agree after trimming and lower-casing are resolved alike.
\<close>

theorem handleLogin_resolves:
  "(toLowerCase (trim (accessCodeInput app)) = toLowerCase (adminAccessCode (state app)) \<longrightarrow>
      handleLogin toLowerCase app = app\<lparr>currentUser := Some Admin, view := V_select_collection\<rparr>)
   \<and> (toLowerCase (trim (accessCodeInput app)) \<noteq> toLowerCase (adminAccessCode (state app)) \<longrightarrow>
        (\<forall>pre c post.
           collections (state app) = pre @ c # post
           \<and> (\<forall>x\<in>set pre. toLowerCase (c_accessCode x) \<noteq> toLowerCase (trim (accessCodeInput app)))
           \<and> toLowerCase (c_accessCode c) = toLowerCase (trim (accessCodeInput app)) \<longrightarrow>
           handleLogin toLowerCase app =
             app\<lparr>activeCollection := Some c, currentUser := Some Influencer,
                 view := V_influencer\<rparr>))
   \<and> (toLowerCase (trim (accessCodeInput app)) \<noteq> toLowerCase (adminAccessCode (state app))
        \<and> (\<forall>x\<in>set (collections (state app)).
               toLowerCase (c_accessCode x) \<noteq> toLowerCase (trim (accessCodeInput app))) \<longrightarrow>
        handleLogin toLowerCase app = app\<lparr>error := Some (js ''Invalid Access Code'')\<rparr>)
   \<and> state (handleLogin toLowerCase app) = state app
   \<and> (toLowerCase (trim input') = toLowerCase (trim (accessCodeInput app)) \<longrightarrow>
        handleLogin toLowerCase (app\<lparr>accessCodeInput := input'\<rparr>) =
          (handleLogin toLowerCase app)\<lparr>accessCodeInput := input'\<rparr>)"
  apply (intro conjI impI allI)
  subgoal by (simp add: handleLogin_def)
  subgoal by (simp add: handleLogin_def Let_def find_first_match)
  subgoal by (simp add: handleLogin_def Let_def find_no_match notify_def)
  subgoal by (simp add: handleLogin_def Let_def notify_def split: option.splits)
  subgoal by (simp add: handleLogin_def Let_def notify_def split: option.splits)
  done

lemmas ex_string_defs = js_def trim_def isWhiteSpace_def toLowerCase_ascii_def

theorem handleLogin_resolves_witness:
  "handleLogin toLowerCase_ascii (exApp\<lparr>accessCodeInput := js '' Admin ''\<rparr>) =
     exApp\<lparr>accessCodeInput := js '' Admin '', currentUser := Some Admin,
           view := V_select_collection\<rparr>
   \<and> handleLogin toLowerCase_ascii (exApp\<lparr>accessCodeInput := js ''abc123 ''\<rparr>) =
     exApp\<lparr>accessCodeInput := js ''abc123 '', activeCollection := Some exCollection,
           currentUser := Some Influencer, view := V_influencer\<rparr>
   \<and> handleLogin toLowerCase_ascii (exApp\<lparr>accessCodeInput := js ''abc 123''\<rparr>) =
     exApp\<lparr>accessCodeInput := js ''abc 123'', error := Some (js ''Invalid Access Code'')\<rparr>"
proof (intro conjI)
  show "handleLogin toLowerCase_ascii (exApp\<lparr>accessCodeInput := js '' Admin ''\<rparr>) =
     exApp\<lparr>accessCodeInput := js '' Admin '', currentUser := Some Admin,
           view := V_select_collection\<rparr>"
    using handleLogin_resolves [of toLowerCase_ascii "exApp\<lparr>accessCodeInput := js '' Admin ''\<rparr>"]
    by (simp add: exApp_def ex_string_defs)
next
  have "\<forall>pre c post.
          collections (state (exApp\<lparr>accessCodeInput := js ''abc123 ''\<rparr>)) = pre @ c # post
          \<and> (\<forall>x\<in>set pre. toLowerCase_ascii (c_accessCode x) \<noteq>
                toLowerCase_ascii (trim (accessCodeInput (exApp\<lparr>accessCodeInput := js ''abc123 ''\<rparr>))))
          \<and> toLowerCase_ascii (c_accessCode c) =
                toLowerCase_ascii (trim (accessCodeInput (exApp\<lparr>accessCodeInput := js ''abc123 ''\<rparr>))) \<longrightarrow>
          handleLogin toLowerCase_ascii (exApp\<lparr>accessCodeInput := js ''abc123 ''\<rparr>) =
            exApp\<lparr>accessCodeInput := js ''abc123 '', activeCollection := Some c,
                  currentUser := Some Influencer, view := V_influencer\<rparr>"
    using handleLogin_resolves [of toLowerCase_ascii "exApp\<lparr>accessCodeInput := js ''abc123 ''\<rparr>"]
    by (simp add: exApp_def ex_string_defs)
  from this [rule_format, of "[]" exCollection]
  show "handleLogin toLowerCase_ascii (exApp\<lparr>accessCodeInput := js ''abc123 ''\<rparr>) =
     exApp\<lparr>accessCodeInput := js ''abc123 '', activeCollection := Some exCollection,
           currentUser := Some Influencer, view := V_influencer\<rparr>"
    by (simp add: exApp_def exCollection_def ex_string_defs)
next
  show "handleLogin toLowerCase_ascii (exApp\<lparr>accessCodeInput := js ''abc 123''\<rparr>) =
     exApp\<lparr>accessCodeInput := js ''abc 123'', error := Some (js ''Invalid Access Code'')\<rparr>"
    using handleLogin_resolves [of toLowerCase_ascii "exApp\<lparr>accessCodeInput := js ''abc 123''\<rparr>"]
    by (simp add: exApp_def exCollection_def ex_string_defs)
qed

section \<open>The cart and its bound\<close>

lemma length_removeFromCart: "length (cart (removeFromCart idx app)) \<le> length (cart app)"
proof -
  have "length (filter (\<lambda>(i, _). i \<noteq> idx) (enumerate 0 (cart app)))
          \<le> length (enumerate 0 (cart app))"
    by (rule length_filter_le)
  then show ?thesis by (simp add: removeFromCart_def)
qed

lemma addToCart_inv:
  "sessionInv m (app, page) \<Longrightarrow> activeCollection app = Some c \<Longrightarrow>
   sessionInv m (addToCart c (app, page))"
  by (auto simp: sessionInv_def addToCart_def notify_def alert_def handleNavigate_def
      split: option.splits)

lemma handleSubmit_inv:
  "sessionInv m (app, page) \<Longrightarrow> activeCollection app = Some c \<Longrightarrow>
   sessionInv m (handleSubmit random toISOString c (app, page))"
  by (auto simp: sessionInv_def handleSubmit_def Let_def onSubmission_def updateCollection_def
      alert_def handleNavigate_def)

lemma handle_inv:
  assumes inv: "sessionInv m (app, page)" and ac: "activeCollection app = Some c"
  shows "sessionInv m (handle random toISOString c ev (app, page))"
proof (cases ev)
  case AddToCart
  then show ?thesis using addToCart_inv [OF inv ac] by simp
next
  case Submit
  then show ?thesis using handleSubmit_inv [OF inv ac] by simp
next
  case (RemoveItem idx)
  then show ?thesis using inv length_removeFromCart [of idx app]
    by (auto simp: sessionInv_def removeFromCart_def)
next
  case Logout
  then show ?thesis using inv
    by (auto simp: sessionInv_def handleLogout_def)
qed (use inv in \<open>auto simp: sessionInv_def handleNavigate_def\<close>)

lemma step_inv: "sessionInv m s \<Longrightarrow> sessionInv m (step random toISOString ev s)"
  by (cases s) (auto simp: step_def handle_inv split: option.splits)

lemma run_inv: "sessionInv m s \<Longrightarrow> sessionInv m (run random toISOString evs s)"
  unfolding run_def
  by (induction evs arbitrary: s) (auto simp: step_inv)

text \<open>
  C2. \<open>addToCart\<close> with no product or no size selected, or with a cart that already holds
  \<open>collection.maxProducts\<close> items, calls \<open>alert\<close> and leaves the \<open>App\<close> state, the cart
  with it, as it was. Hence, in a session whose cart is within the \<open>maxProducts\<close> of its
  collection (as the empty cart of a new session is when \<open>maxProducts\<close> is not negative),
  the cart stays within it after every sequence of events of the page: adding, removing,
  navigating, editing the form, submitting and logging out.
\<close>

theorem addToCart_cart_bound:
  "(selectedProduct page = None \<or> selectedSize page = [] \<longrightarrow>
      addToCart collection (app, page) =
        (app, alert (js ''Please select a size preference.'') page))
   \<and> (selectedProduct page \<noteq> None \<and> selectedSize page \<noteq> []
        \<and> int (length (cart app)) = c_maxProducts collection \<longrightarrow>
      addToCart collection (app, page) =
        (app, alert (js ''You'' @ [0x27] @ js ''ve reached the selection limit of '' @
                     numberToString (c_maxProducts collection) @ js '' products.'') page))
   \<and> (activeCollection app = Some collection
        \<and> int (length (cart app)) \<le> c_maxProducts collection \<longrightarrow>
      int (length (cart (fst (run random toISOString evs (app, page)))))
        \<le> c_maxProducts collection)"
proof (intro conjI impI)
  assume "selectedProduct page = None \<or> selectedSize page = []"
  then show "addToCart collection (app, page) =
        (app, alert (js ''Please select a size preference.'') page)"
    by (auto simp: addToCart_def split: option.splits)
next
  assume "selectedProduct page \<noteq> None \<and> selectedSize page \<noteq> []
        \<and> int (length (cart app)) = c_maxProducts collection"
  then show "addToCart collection (app, page) =
        (app, alert (js ''You'' @ [0x27] @ js ''ve reached the selection limit of '' @
                     numberToString (c_maxProducts collection) @ js '' products.'') page)"
    by (auto simp: addToCart_def split: option.splits)
next
  assume "activeCollection app = Some collection
        \<and> int (length (cart app)) \<le> c_maxProducts collection"
  then have "sessionInv (c_maxProducts collection) (app, page)"
    by (simp add: sessionInv_def)
  then have "sessionInv (c_maxProducts collection) (run random toISOString evs (app, page))"
    by (rule run_inv)
  then show "int (length (cart (fst (run random toISOString evs (app, page)))))
        \<le> c_maxProducts collection"
    by (simp add: sessionInv_def)
qed

lemmas ex_page_defs = exSession_def exApp_def exCollection_def exProduct_def exItem_def
  initialPage_def placeholderImage_def alert_def handleNavigate_def notify_def

theorem addToCart_cart_bound_witness:
  "addToCart exCollection (fst exSession, initialPage\<lparr>selectedProduct := Some exProduct\<rparr>) =
     (fst exSession,
      alert (js ''Please select a size preference.'') (initialPage\<lparr>selectedProduct := Some exProduct\<rparr>))
   \<and> addToCart exCollection
        ((fst exSession)\<lparr>cart := [exItem]\<rparr>,
         initialPage\<lparr>selectedProduct := Some exProduct, selectedSize := js ''S''\<rparr>) =
     ((fst exSession)\<lparr>cart := [exItem]\<rparr>,
      alert (js ''You'' @ [0x27] @ js ''ve reached the selection limit of 1 products.'')
        (initialPage\<lparr>selectedProduct := Some exProduct, selectedSize := js ''S''\<rparr>))
   \<and> int (length (cart (fst (run exRandom exClock exEvents exSession)))) \<le> 1
   \<and> cart (fst (run exRandom exClock exEvents exSession)) = [exItem]"
proof (intro conjI)
  show "addToCart exCollection (fst exSession, initialPage\<lparr>selectedProduct := Some exProduct\<rparr>) =
     (fst exSession,
      alert (js ''Please select a size preference.'') (initialPage\<lparr>selectedProduct := Some exProduct\<rparr>))"
    using addToCart_cart_bound [of "initialPage\<lparr>selectedProduct := Some exProduct\<rparr>"
        exCollection "fst exSession"]
    by (simp add: initialPage_def)
next
  show "addToCart exCollection
        ((fst exSession)\<lparr>cart := [exItem]\<rparr>,
         initialPage\<lparr>selectedProduct := Some exProduct, selectedSize := js ''S''\<rparr>) =
     ((fst exSession)\<lparr>cart := [exItem]\<rparr>,
      alert (js ''You'' @ [0x27] @ js ''ve reached the selection limit of 1 products.'')
        (initialPage\<lparr>selectedProduct := Some exProduct, selectedSize := js ''S''\<rparr>))"
    using addToCart_cart_bound [of "initialPage\<lparr>selectedProduct := Some exProduct, selectedSize := js ''S''\<rparr>"
        exCollection "(fst exSession)\<lparr>cart := [exItem]\<rparr>"]
    by (simp add: initialPage_def exCollection_def js_def numberToString_def natToString.simps digit_def)
next
  show "int (length (cart (fst (run exRandom exClock exEvents exSession)))) \<le> 1"
    using addToCart_cart_bound [of initialPage exCollection "fst exSession" exRandom exClock exEvents]
    by (simp add: exSession_def exApp_def exCollection_def)
next
  show "cart (fst (run exRandom exClock exEvents exSession)) = [exItem]"
    by (simp add: run_def exEvents_def step_def addToCart_def ex_page_defs js_def)
qed

section \<open>Submission\<close>

lemma map_enumerate_nth:
  "map (\<lambda>(i, x). f i x) (enumerate 0 xs) = map (\<lambda>i. f i (xs ! i)) [0..<length xs]"
  by (rule nth_equalityI) (simp_all add: nth_enumerate_eq)

text \<open>
  C3. \<open>handleSubmit\<close> with an empty \<open>instagramId\<close>, \<open>name\<close>, \<open>phone\<close> or \<open>address\<close>, or
  without the consent flag, calls \<open>alert\<close> and changes nothing else. Otherwise it builds
  one entry for each cart item, in the order of the cart: the id is generated, the status
  is \<open>PREPARING\<close>, \<open>submitDate\<close> is the date part of the time stamp read for the item (the
  UTC date of \<open>toISOString\<close>), the contact fields are those of the form, \<open>productName\<close> and
  \<open>size\<close> are those of the item, \<open>quantity\<close> is 1 and \<open>adminMemo\<close> is empty. The entries
  are appended to the entries of the active collection, which replaces the collection of
  the same id in the document; the cart is emptied and the page shows the view
  \<open>success\<close>. In that view every event but logout leaves the session as it is.
\<close>

theorem handleSubmit_entries:
  "(f_instagramId (formData page) = [] \<or> f_name (formData page) = []
      \<or> f_phone (formData page) = [] \<or> f_address (formData page) = []
      \<or> \<not> f_agreed (formData page) \<longrightarrow>
      handleSubmit random toISOString active (app, page) =
        (app, alert (js ''Please complete all required fields and accept the terms.'') page))
   \<and> (f_instagramId (formData page) \<noteq> [] \<and> f_name (formData page) \<noteq> []
        \<and> f_phone (formData page) \<noteq> [] \<and> f_address (formData page) \<noteq> []
        \<and> f_agreed (formData page) \<longrightarrow>
      (let added = map (\<lambda>i. \<lparr>e_id = generateId (random i),
                              e_status = PREPARING,
                              e_submitDate = isoDate (toISOString i),
                              e_instagramId = f_instagramId (formData page),
                              e_name = f_name (formData page),
                              e_phone = f_phone (formData page),
                              e_address = f_address (formData page),
                              e_message = f_message (formData page),
                              e_extra = f_extra (formData page),
                              e_productName = ci_productName (cart app ! i),
                              e_size = ci_size (cart app ! i),
                              e_quantity = 1,
                              e_adminMemo = []\<rparr>) [0..<length (cart app)];
           updated = active\<lparr>c_shippingEntries := c_shippingEntries active @ added\<rparr>
       in length added = length (cart app)
          \<and> handleSubmit random toISOString active (app, page) =
              (app\<lparr>state := (state app)\<lparr>collections :=
                       map (\<lambda>c. if c_id c = c_id active then updated else c)
                           (collections (state app))\<rparr>,
                   activeCollection := Some updated,
                   cart := []\<rparr>,
               page\<lparr>pview := PV_success\<rparr>)))
   \<and> (pview page = PV_success \<and> ev \<noteq> Logout \<longrightarrow>
        step random toISOString ev (app, page) = (app, page))"
proof (intro conjI impI)
  assume "f_instagramId (formData page) = [] \<or> f_name (formData page) = []
      \<or> f_phone (formData page) = [] \<or> f_address (formData page) = []
      \<or> \<not> f_agreed (formData page)"
  then show "handleSubmit random toISOString active (app, page) =
        (app, alert (js ''Please complete all required fields and accept the terms.'') page)"
    by (auto simp: handleSubmit_def Let_def)
next
  assume ok: "f_instagramId (formData page) \<noteq> [] \<and> f_name (formData page) \<noteq> []
        \<and> f_phone (formData page) \<noteq> [] \<and> f_address (formData page) \<noteq> []
        \<and> f_agreed (formData page)"
  have m: "map (\<lambda>(i, item). newEntry (formData page) (random i) (toISOString i) item)
             (enumerate 0 (cart app)) =
           map (\<lambda>i. newEntry (formData page) (random i) (toISOString i) (cart app ! i))
             [0..<length (cart app)]"
    by (rule map_enumerate_nth)
  show "let added = map (\<lambda>i. \<lparr>e_id = generateId (random i),
                              e_status = PREPARING,
                              e_submitDate = isoDate (toISOString i),
                              e_instagramId = f_instagramId (formData page),
                              e_name = f_name (formData page),
                              e_phone = f_phone (formData page),
                              e_address = f_address (formData page),
                              e_message = f_message (formData page),
                              e_extra = f_extra (formData page),
                              e_productName = ci_productName (cart app ! i),
                              e_size = ci_size (cart app ! i),
                              e_quantity = 1,
                              e_adminMemo = []\<rparr>) [0..<length (cart app)];
           updated = active\<lparr>c_shippingEntries := c_shippingEntries active @ added\<rparr>
       in length added = length (cart app)
          \<and> handleSubmit random toISOString active (app, page) =
              (app\<lparr>state := (state app)\<lparr>collections :=
                       map (\<lambda>c. if c_id c = c_id active then updated else c)
                           (collections (state app))\<rparr>,
                   activeCollection := Some updated,
                   cart := []\<rparr>,
               page\<lparr>pview := PV_success\<rparr>)"
    using ok
    by (simp add: handleSubmit_def Let_def m onSubmission_def updateCollection_def
        handleNavigate_def newEntry_def)
next
  assume "pview page = PV_success \<and> ev \<noteq> Logout"
  then show "step random toISOString ev (app, page) = (app, page)"
    by (cases ev) (auto simp: step_def split: option.splits)
qed

text \<open>
  The witness is the end of the scenario of the specification: the product \<open>Tee\<close> with
  the options \<open>S\<close> and \<open>M\<close> is in the cart at size \<open>M\<close> and the form is filled in.
\<close>

theorem handleSubmit_entries_witness:
  "handleSubmit exRandom exClock exCollection (fst exSession, initialPage) =
     (fst exSession,
      alert (js ''Please complete all required fields and accept the terms.'') initialPage)
   \<and> handleSubmit exRandom exClock exCollection
        ((fst exSession)\<lparr>cart := [exItem]\<rparr>, initialPage\<lparr>pview := PV_cart, formData := exForm\<rparr>) =
     ((fst exSession)
        \<lparr>state := (state exApp)\<lparr>collections :=
           [exCollection\<lparr>c_shippingEntries :=
              [\<lparr>e_id = js ''4fzyo82mv'', e_status = PREPARING, e_submitDate = js ''2024-05-01'',
                e_instagramId = js ''abc'', e_name = js ''Kim'', e_phone = js ''010-1234-5678'',
                e_address = js ''Seoul'', e_message = js ''fast please'', e_extra = [],
                e_productName = js ''Tee'', e_size = js ''M'', e_quantity = 1,
                e_adminMemo = []\<rparr>]\<rparr>,
            exCollection\<lparr>c_id := js ''c2'', c_accessCode := js ''ABC123''\<rparr>,
            exCollection\<lparr>c_id := js ''c3'', c_accessCode := js ''ADMIN''\<rparr>]\<rparr>,
         activeCollection := Some (exCollection\<lparr>c_shippingEntries :=
              [\<lparr>e_id = js ''4fzyo82mv'', e_status = PREPARING, e_submitDate = js ''2024-05-01'',
                e_instagramId = js ''abc'', e_name = js ''Kim'', e_phone = js ''010-1234-5678'',
                e_address = js ''Seoul'', e_message = js ''fast please'', e_extra = [],
                e_productName = js ''Tee'', e_size = js ''M'', e_quantity = 1,
                e_adminMemo = []\<rparr>]\<rparr>),
         cart := []\<rparr>,
      initialPage\<lparr>pview := PV_success, formData := exForm\<rparr>)
   \<and> step exRandom exClock AddToCart
        (fst exSession, initialPage\<lparr>pview := PV_success\<rparr>) =
     (fst exSession, initialPage\<lparr>pview := PV_success\<rparr>)"
proof (intro conjI)
  show "handleSubmit exRandom exClock exCollection (fst exSession, initialPage) =
     (fst exSession,
      alert (js ''Please complete all required fields and accept the terms.'') initialPage)"
    using handleSubmit_entries [of initialPage exRandom exClock exCollection "fst exSession"]
    by (simp add: initialPage_def)
next
  show "handleSubmit exRandom exClock exCollection
        ((fst exSession)\<lparr>cart := [exItem]\<rparr>, initialPage\<lparr>pview := PV_cart, formData := exForm\<rparr>) =
     ((fst exSession)
        \<lparr>state := (state exApp)\<lparr>collections :=
           [exCollection\<lparr>c_shippingEntries :=
              [\<lparr>e_id = js ''4fzyo82mv'', e_status = PREPARING, e_submitDate = js ''2024-05-01'',
                e_instagramId = js ''abc'', e_name = js ''Kim'', e_phone = js ''010-1234-5678'',
                e_address = js ''Seoul'', e_message = js ''fast please'', e_extra = [],
                e_productName = js ''Tee'', e_size = js ''M'', e_quantity = 1,
                e_adminMemo = []\<rparr>]\<rparr>,
            exCollection\<lparr>c_id := js ''c2'', c_accessCode := js ''ABC123''\<rparr>,
            exCollection\<lparr>c_id := js ''c3'', c_accessCode := js ''ADMIN''\<rparr>]\<rparr>,
         activeCollection := Some (exCollection\<lparr>c_shippingEntries :=
              [\<lparr>e_id = js ''4fzyo82mv'', e_status = PREPARING, e_submitDate = js ''2024-05-01'',
                e_instagramId = js ''abc'', e_name = js ''Kim'', e_phone = js ''010-1234-5678'',
                e_address = js ''Seoul'', e_message = js ''fast please'', e_extra = [],
                e_productName = js ''Tee'', e_size = js ''M'', e_quantity = 1,
                e_adminMemo = []\<rparr>]\<rparr>),
         cart := []\<rparr>,
      initialPage\<lparr>pview := PV_success, formData := exForm\<rparr>)"
    using handleSubmit_entries [of "initialPage\<lparr>pview := PV_cart, formData := exForm\<rparr>"
        exRandom exClock exCollection "(fst exSession)\<lparr>cart := [exItem]\<rparr>"]
    by (simp add: Let_def exForm_def exRandom_def exClock_def generateId_def isoDate_def
        ex_page_defs js_def)
next
  show "step exRandom exClock AddToCart
        (fst exSession, initialPage\<lparr>pview := PV_success\<rparr>) =
     (fst exSession, initialPage\<lparr>pview := PV_success\<rparr>)"
    using handleSubmit_entries [of "initialPage\<lparr>pview := PV_success\<rparr>" exRandom exClock
        exCollection "fst exSession" AddToCart]
    by simp
qed

section \<open>Administrator operations\<close>

text \<open>
  C4, as stated, fails: the id of the copy is whatever \<open>generateId\<close> returns, and nothing
  keeps the generator from returning the id of the source again. Here the draw
  \<open>0.4fzyo82mvyr\<close> yields the id \<open>4fzyo82mv\<close>, which the source entry already has.
\<close>

theorem duplicateShippingEntry_same_id:
  "activeCollection
     (duplicateShippingEntry (js ''0.4fzyo82mvyr'') exEntry
        (exCollection\<lparr>c_shippingEntries := [exEntry]\<rparr>) exApp) =
   Some (exCollection\<lparr>c_shippingEntries :=
           [exEntry,
            exEntry\<lparr>e_submitDate := extraSentinel, e_productName := [], e_size := []\<rparr>]\<rparr>)
   \<and> map e_id [exEntry,
                 exEntry\<lparr>e_submitDate := extraSentinel, e_productName := [], e_size := []\<rparr>] =
       [js ''4fzyo82mv'', js ''4fzyo82mv'']"
  by (simp add: Let_def duplicateShippingEntry_def updateCollection_def notify_def
      generateId_def exEntry_def js_def)

text \<open>
  C4, amended. Duplicating an entry of a collection appends exactly one entry after the
  entries of the collection, which stay as they are. The id of the new entry is the
  generated one; it differs from the id of the source exactly when the generator did not
  return that id. Its \<open>submitDate\<close> is the sentinel, its \<open>productName\<close> and \<open>size\<close> are
  empty, and its status, \<open>instagramId\<close>, \<open>name\<close>, \<open>phone\<close>, \<open>address\<close>, \<open>message\<close>, \<open>extra\<close>,
  \<open>quantity\<close> and \<open>adminMemo\<close> are those of the source. The result is the active
  collection and replaces the collection of the same id in the document.
\<close>

theorem duplicateShippingEntry_copy:
  "(let app' = duplicateShippingEntry random36 entry collection app;
        copy = entry\<lparr>e_id := generateId random36, e_submitDate := extraSentinel,
                     e_productName := [], e_size := []\<rparr>;
        updated = collection\<lparr>c_shippingEntries := c_shippingEntries collection @ [copy]\<rparr>
    in activeCollection app' = Some updated
       \<and> collections (state app') =
           map (\<lambda>c. if c_id c = c_id collection then updated else c) (collections (state app))
       \<and> take (length (c_shippingEntries collection)) (c_shippingEntries updated) =
           c_shippingEntries collection
       \<and> length (c_shippingEntries updated) = length (c_shippingEntries collection) + 1
       \<and> last (c_shippingEntries updated) = copy
       \<and> e_id copy = generateId random36
       \<and> (e_id copy \<noteq> e_id entry) = (generateId random36 \<noteq> e_id entry)
       \<and> e_submitDate copy = extraSentinel
       \<and> e_productName copy = []
       \<and> e_size copy = []
       \<and> e_status copy = e_status entry
       \<and> e_instagramId copy = e_instagramId entry
       \<and> e_name copy = e_name entry
       \<and> e_phone copy = e_phone entry
       \<and> e_address copy = e_address entry
       \<and> e_message copy = e_message entry
       \<and> e_extra copy = e_extra entry
       \<and> e_quantity copy = e_quantity entry
       \<and> e_adminMemo copy = e_adminMemo entry)"
  by (simp add: Let_def duplicateShippingEntry_def updateCollection_def notify_def)

lemma parseIntOr1_nonzero: "parseIntOr1 v \<noteq> 0"
  by (simp add: parseIntOr1_def split: option.splits)

text \<open>
  C6. The claim asks for a positive integer. The handler stores \<open>parseInt(value) || 1\<close>,
  which replaces NaN and 0 by 1 and lets a negative number through: for the input \<open>-3\<close>
  the stored \<open>maxProducts\<close> is \<open>-3\<close>.
\<close>

theorem onChangeMaxProducts_negative:
  "parseIntOr1 (js ''-3'') = - 3
   \<and> activeCollection (onChangeMaxProducts (js ''-3'') exCollection exApp) =
       Some (exCollection\<lparr>c_maxProducts := - 3\<rparr>)
   \<and> parseIntOr1 (js ''abc'') = 1
   \<and> parseIntOr1 (js ''0'') = 1
   \<and> parseIntOr1 (js '' 12px'') = 12"
  by (simp add: onChangeMaxProducts_def handleUpdate_def updateCollection_def notify_def
      parseIntOr1_def parseInt_def Let_def trimStart_def isWhiteSpace_def digitValue_def js_def)

text \<open>
  C7, as stated, fails: with a name that is empty after trimming \<open>createCollection\<close>
  returns at once, and no warning is reported.
\<close>

theorem createCollection_blank_name_silent:
  "createCollection [] (js ''0.4fzyo82mvyr'') (js ''0.k1x9qd03abc'')
     (exApp\<lparr>newCollectionName := js ''  ''\<rparr>) = exApp\<lparr>newCollectionName := js ''  ''\<rparr>
   \<and> error (exApp\<lparr>newCollectionName := js ''  ''\<rparr>) = None
   \<and> success (exApp\<lparr>newCollectionName := js ''  ''\<rparr>) = None"
  by (simp add: createCollection_def exApp_def ex_string_defs)

lemma storageNearlyFull_bytes: "storageNearlyFull localStorage = (4975494 \<le> storageTotal localStorage)"
  unfolding storageNearlyFull_def usageHundredths_def MAX_STORAGE_MB_def by linarith

text \<open>
  C7, amended. When the name is empty after trimming, \<open>createCollection\<close> changes nothing
  and reports nothing. When the name is not empty and the usage estimate is at least 95%
  of \<open>MAX_STORAGE_MB\<close> (the rounded estimate is at least 4.75, that is the counted total
  is at least 4975494), only the error toast is set and the collections are unchanged.
  Otherwise exactly one collection is appended: its id is generated, its access code is
  the first six characters of a second generated id (six characters when the draw has at
  least eight), its \<open>maxProducts\<close> is 2 and its products, shipping entries and lookbook
  images are empty; it becomes the active collection and a success toast is set.
\<close>

theorem createCollection_cases:
  "(trim (newCollectionName app) = [] \<longrightarrow>
      createCollection localStorage random1 random2 app = app)
   \<and> (trim (newCollectionName app) \<noteq> [] \<and> storageNearlyFull localStorage \<longrightarrow>
      createCollection localStorage random1 random2 app =
        app\<lparr>error := Some (js ''Storage nearly full. Delete old collections first.'')\<rparr>)
   \<and> (trim (newCollectionName app) \<noteq> [] \<and> \<not> storageNearlyFull localStorage \<longrightarrow>
      (let newColl = \<lparr>c_id = generateId random1,
                       c_name = trim (newCollectionName app),
                       c_accessCode = take 6 (generateId random2),
                       c_maxProducts = 2,
                       c_logoUrl = None,
                       c_lookbookImages = [],
                       c_descriptionTitle = js ''Collection Story'',
                       c_descriptionBody = js ''Share the inspiration behind this season.'',
                       c_products = [],
                       c_shippingEntries = []\<rparr>
       in createCollection localStorage random1 random2 app =
            app\<lparr>state := (state app)\<lparr>collections := collections (state app) @ [newColl]\<rparr>,
                activeCollection := Some newColl,
                view := V_admin,
                adminSubView := SV_settings,
                isCreateModalOpen := False,
                newCollectionName := [],
                success := Some (js ''Collection '' @ [0x22] @ trim (newCollectionName app) @
                                 [0x22] @ js '' created'')\<rparr>
          \<and> length (c_accessCode newColl) \<le> 6
          \<and> (8 \<le> length random2 \<longrightarrow> length (c_accessCode newColl) = 6)))
   \<and> storageNearlyFull localStorage = (95 * MAX_STORAGE_MB \<le> usageHundredths (storageTotal localStorage))
   \<and> storageNearlyFull localStorage = (4975494 \<le> storageTotal localStorage)"
proof (intro conjI impI)
  show "storageNearlyFull localStorage = (4975494 \<le> storageTotal localStorage)"
    by (rule storageNearlyFull_bytes)
qed (auto simp: createCollection_def Let_def notify_def generateId_def storageNearlyFull_def)

theorem createCollection_cases_witness:
  "createCollection [(js ''k'', replicate 2490367 0x61)] (js ''0.4fzyo82mvyr'') (js ''0.k1x9qd03abc'')
     (exApp\<lparr>newCollectionName := js '' Fall ''\<rparr>) =
     exApp\<lparr>newCollectionName := js '' Fall '',
           error := Some (js ''Storage nearly full. Delete old collections first.'')\<rparr>
   \<and> createCollection [(js ''k'', js ''v'')] (js ''0.4fzyo82mvyr'') (js ''0.k1x9qd03abc'')
       (exApp\<lparr>newCollectionName := js '' Fall ''\<rparr>) =
     exApp\<lparr>state := (state exApp)\<lparr>collections := collections (state exApp) @
              [\<lparr>c_id = js ''4fzyo82mv'', c_name = js ''Fall'', c_accessCode = js ''k1x9qd'',
                c_maxProducts = 2, c_logoUrl = None, c_lookbookImages = [],
                c_descriptionTitle = js ''Collection Story'',
                c_descriptionBody = js ''Share the inspiration behind this season.'',
                c_products = [], c_shippingEntries = []\<rparr>]\<rparr>,
           activeCollection := Some
               \<lparr>c_id = js ''4fzyo82mv'', c_name = js ''Fall'', c_accessCode = js ''k1x9qd'',
                c_maxProducts = 2, c_logoUrl = None, c_lookbookImages = [],
                c_descriptionTitle = js ''Collection Story'',
                c_descriptionBody = js ''Share the inspiration behind this season.'',
                c_products = [], c_shippingEntries = []\<rparr>,
           view := V_admin, adminSubView := SV_settings, isCreateModalOpen := False,
           newCollectionName := [],
           success := Some (js ''Collection '' @ [0x22] @ js ''Fall'' @ [0x22] @ js '' created'')\<rparr>
   \<and> createCollection [] [] [] exApp = exApp"
proof (intro conjI)
  have t: "trim (js '' Fall '') = js ''Fall''"
    by (simp add: ex_string_defs)
  have full: "storageNearlyFull [(js ''k'', replicate 2490367 0x61)]"
    by (simp add: storageNearlyFull_bytes storageTotal_def js_def)
  have notfull: "\<not> storageNearlyFull [(js ''k'', js ''v'')]"
    by (simp add: storageNearlyFull_bytes storageTotal_def js_def)
  show "createCollection [(js ''k'', replicate 2490367 0x61)] (js ''0.4fzyo82mvyr'') (js ''0.k1x9qd03abc'')
     (exApp\<lparr>newCollectionName := js '' Fall ''\<rparr>) =
     exApp\<lparr>newCollectionName := js '' Fall '',
           error := Some (js ''Storage nearly full. Delete old collections first.'')\<rparr>"
    using createCollection_cases [of "exApp\<lparr>newCollectionName := js '' Fall ''\<rparr>"
        "[(js ''k'', replicate 2490367 0x61)]" "js ''0.4fzyo82mvyr''" "js ''0.k1x9qd03abc''"] full t
    by (simp add: js_def)
  show "createCollection [(js ''k'', js ''v'')] (js ''0.4fzyo82mvyr'') (js ''0.k1x9qd03abc'')
       (exApp\<lparr>newCollectionName := js '' Fall ''\<rparr>) =
     exApp\<lparr>state := (state exApp)\<lparr>collections := collections (state exApp) @
              [\<lparr>c_id = js ''4fzyo82mv'', c_name = js ''Fall'', c_accessCode = js ''k1x9qd'',
                c_maxProducts = 2, c_logoUrl = None, c_lookbookImages = [],
                c_descriptionTitle = js ''Collection Story'',
                c_descriptionBody = js ''Share the inspiration behind this season.'',
                c_products = [], c_shippingEntries = []\<rparr>]\<rparr>,
           activeCollection := Some
               \<lparr>c_id = js ''4fzyo82mv'', c_name = js ''Fall'', c_accessCode = js ''k1x9qd'',
                c_maxProducts = 2, c_logoUrl = None, c_lookbookImages = [],
                c_descriptionTitle = js ''Collection Story'',
                c_descriptionBody = js ''Share the inspiration behind this season.'',
                c_products = [], c_shippingEntries = []\<rparr>,
           view := V_admin, adminSubView := SV_settings, isCreateModalOpen := False,
           newCollectionName := [],
           success := Some (js ''Collection '' @ [0x22] @ js ''Fall'' @ [0x22] @ js '' created'')\<rparr>"
    using createCollection_cases [of "exApp\<lparr>newCollectionName := js '' Fall ''\<rparr>"
        "[(js ''k'', js ''v'')]" "js ''0.4fzyo82mvyr''" "js ''0.k1x9qd03abc''"] notfull t
    by (simp add: Let_def generateId_def js_def)
  show "createCollection [] [] [] exApp = exApp"
    using createCollection_cases [of exApp "[]" "[]" "[]"]
    by (simp add: exApp_def trim_def)
qed

section \<open>Storage usage estimate\<close>

lemma foldl_storage_sum:
  "foldl (\<lambda>tot (x, v). tot + (length v + length x) * 2) a localStorage =
     a + (\<Sum>(k, v)\<leftarrow>localStorage. 2 * (length k + length v))"
  by (induction localStorage arbitrary: a) (auto simp: algebra_simps)

text \<open>
  C9. The total that \<open>getStorageUsage\<close> counts is the sum of \<open>2 * (key.length +
  value.length)\<close> over the pairs of the substrate. The result is the total divided by
  1048576 and rounded to two decimals: it is written with the hundredths \<open>h\<close> for which
  \<open>h / 100 - 1 / 200 \<le> total / 1048576 < h / 100 + 1 / 200\<close>, as the integer part, a
  point and two digits. For the substrate with the one key \<open>k\<close> of value \<open>v\<close> the result
  is \<open>0.00\<close>; for a total of exactly 4.75 times 1048576 it is \<open>4.75\<close>.
\<close>

theorem getStorageUsage_estimate:
  "storageTotal localStorage = (\<Sum>(k, v)\<leftarrow>localStorage. 2 * (length k + length v))
   \<and> 2097152 * usageHundredths (storageTotal localStorage) \<le> 200 * storageTotal localStorage + 1048576
   \<and> 200 * storageTotal localStorage + 1048576 < 2097152 * (usageHundredths (storageTotal localStorage) + 1)
   \<and> getStorageUsage localStorage =
       natToString (usageHundredths (storageTotal localStorage) div 100) @ js ''.'' @
       [digit (usageHundredths (storageTotal localStorage) mod 100 div 10),
        digit (usageHundredths (storageTotal localStorage) mod 10)]
   \<and> getStorageUsage [(js ''k'', js ''v'')] = js ''0.00''
   \<and> getStorageUsage [(js ''k'', replicate 2490367 0x61)] = js ''4.75''"
proof (intro conjI)
  show "storageTotal localStorage = (\<Sum>(k, v)\<leftarrow>localStorage. 2 * (length k + length v))"
    unfolding storageTotal_def by (subst foldl_storage_sum) simp
  show "2097152 * usageHundredths (storageTotal localStorage) \<le> 200 * storageTotal localStorage + 1048576"
    unfolding usageHundredths_def by linarith
  show "200 * storageTotal localStorage + 1048576 < 2097152 * (usageHundredths (storageTotal localStorage) + 1)"
    unfolding usageHundredths_def
    using dividend_less_times_div [of 2097152 "200 * storageTotal localStorage + 1048576"]
    by simp
  show "getStorageUsage localStorage =
       natToString (usageHundredths (storageTotal localStorage) div 100) @ js ''.'' @
       [digit (usageHundredths (storageTotal localStorage) mod 100 div 10),
        digit (usageHundredths (storageTotal localStorage) mod 10)]"
    by (simp add: getStorageUsage_def toFixed2_def)
  show "getStorageUsage [(js ''k'', js ''v'')] = js ''0.00''"
    by (simp add: getStorageUsage_def toFixed2_def usageHundredths_def storageTotal_def
        natToString.simps digit_def js_def)
  show "getStorageUsage [(js ''k'', replicate 2490367 0x61)] = js ''4.75''"
    by (simp add: getStorageUsage_def toFixed2_def usageHundredths_def storageTotal_def
        natToString.simps digit_def js_def)
qed

section \<open>CSV export\<close>

lemma escape_quote:
  "escape v = quote (jsString (if truthy v then v else JString []))"
  by (simp add: escape_def quote_def)

lemma row_cells: "row item = map quote (cells item)"
  by (simp add: row_def cells_def escape_quote)

lemma read_quoted_body:
  "foldl csvStep (InQuoted, f, r, rs) (concat (map (\<lambda>c. if c = 0x22 then [0x22, 0x22] else [c]) s)) =
     (InQuoted, f @ s, r, rs)"
  by (induction s arbitrary: f) auto

lemma read_quote_StartField:
  "foldl csvStep (StartField, f, r, rs) (quote s) = (QuoteInQuoted, s, r, rs)"
  by (simp add: quote_def csvStart_def read_quoted_body)

lemma read_quote_StartRecord:
  "foldl csvStep (StartRecord, f, r, rs) (quote s) = (QuoteInQuoted, s, [], rs)"
  by (simp add: quote_def csvStart_def read_quoted_body)

lemma read_quoted_fields_StartField:
  "fs \<noteq> [] \<Longrightarrow>
   foldl csvStep (StartField, f, r, rs) (join (js '','') (map quote fs)) =
     (QuoteInQuoted, last fs, r @ butlast fs, rs)"
proof (induction fs arbitrary: f r)
  case Nil
  then show ?case by simp
next
  case (Cons x xs)
  show ?case
  proof (cases xs)
    case Nil
    then show ?thesis by (simp add: read_quote_StartField)
  next
    case (Cons y ys)
    have "foldl csvStep (StartField, f, r, rs) (join (js '','') (map quote (x # xs))) =
          foldl csvStep (StartField, [], r @ [x], rs) (join (js '','') (map quote xs))"
      using Cons by (simp add: read_quote_StartField js_def)
    also have "\<dots> = (QuoteInQuoted, last xs, (r @ [x]) @ butlast xs, rs)"
      using Cons Cons.IH by simp
    finally show ?thesis using Cons by simp
  qed
qed

lemma read_quoted_fields_StartRecord:
  assumes "fs \<noteq> []"
  shows "foldl csvStep (StartRecord, f, r, rs) (join (js '','') (map quote fs)) =
           (QuoteInQuoted, last fs, butlast fs, rs)"
proof (cases fs)
  case Nil
  with assms show ?thesis by simp
next
  case (Cons x xs)
  show ?thesis
  proof (cases xs)
    case Nil
    with Cons show ?thesis by (simp add: read_quote_StartRecord)
  next
    case (Cons y ys)
    have "foldl csvStep (StartRecord, f, r, rs) (join (js '','') (map quote (x # xs))) =
          foldl csvStep (StartField, [], [x], rs) (join (js '','') (map quote xs))"
      using Cons by (simp add: read_quote_StartRecord js_def)
    also have "\<dots> = (QuoteInQuoted, last xs, [x] @ butlast xs, rs)"
      using Cons by (intro read_quoted_fields_StartField) simp
    finally show ?thesis using Cons \<open>fs = x # xs\<close> by simp
  qed
qed

lemma cells_not_Nil: "cells item \<noteq> []"
  by (simp add: cells_def)

lemma read_lines:
  "st = InField \<or> st = QuoteInQuoted \<Longrightarrow>
   csvFinish (foldl csvStep (st, f, r, rs)
      (concat (map (\<lambda>item. [0x0A] @ join (js '','') (row item)) data))) =
     rs @ [r @ [f]] @ map cells data"
proof (induction data arbitrary: st f r rs)
  case Nil
  then show ?case by auto
next
  case (Cons item data)
  have "foldl csvStep (st, f, r, rs) [0x0A] = (StartRecord, [], [], rs @ [r @ [f]])"
    using Cons.prems by auto
  then have "foldl csvStep (st, f, r, rs) ([0x0A] @ join (js '','') (row item)) =
             (QuoteInQuoted, last (cells item), butlast (cells item), rs @ [r @ [f]])"
    by (simp only: foldl_append row_cells read_quoted_fields_StartRecord [OF cells_not_Nil])
  then have "csvFinish (foldl csvStep (st, f, r, rs)
      (concat (map (\<lambda>item. [0x0A] @ join (js '','') (row item)) (item # data)))) =
      csvFinish (foldl csvStep (QuoteInQuoted, last (cells item), butlast (cells item), rs @ [r @ [f]])
       (concat (map (\<lambda>item. [0x0A] @ join (js '','') (row item)) data)))"
    by (simp only: list.map concat.simps foldl_append)
  also have "\<dots> = (rs @ [r @ [f]]) @ [butlast (cells item) @ [last (cells item)]] @ map cells data"
    by (rule Cons.IH) simp
  finally show ?case using cells_not_Nil [of item] by simp
qed

lemma join_lines: "join [0x0A] (h # ls) = h @ concat (map (\<lambda>l. [0x0A] @ l) ls)"
  by (induction ls arbitrary: h) auto

lemma read_header:
  "foldl csvStep (StartRecord, [], [], []) (join (js '','') customHeaders) =
     (InField, last customHeaders, butlast customHeaders, [])"
  by (simp add: customHeaders_def js_def csvStart_def)

lemma csvRead_csvString:
  "csvRead (0xFEFF # csvString data) = customHeaders # map cells data"
proof -
  have "csvString data = join (js '','') customHeaders @
          concat (map (\<lambda>item. [0x0A] @ join (js '','') (row item)) data)"
    by (simp add: csvString_def join_lines comp_def)
  then have "csvRead (0xFEFF # csvString data) =
      csvFinish (foldl csvStep (InField, last customHeaders, butlast customHeaders, [])
          (concat (map (\<lambda>item. [0x0A] @ join (js '','') (row item)) data)))"
    by (simp add: csvRead_def stripBOM_def read_header)
  also have "\<dots> = [] @ [butlast customHeaders @ [last customHeaders]] @ map cells data"
    by (rule read_lines) simp
  finally show ?thesis by (simp add: customHeaders_def)
qed
lemma cells_itemOfEntry:
  "cells (itemOfEntry e) =
     [e_instagramId e, e_name e, e_phone e, [], [], e_address e, e_productName e, e_size e,
      numberToString (if e_quantity e = 0 then 1 else e_quantity e), e_message e]"
  by (simp add: cells_def itemOfEntry_def)

lemma numberToString_0_1: "numberToString 0 = js ''0'' \<and> numberToString 1 = js ''1''"
  by (simp add: numberToString_def natToString.simps digit_def js_def)

text \<open>
  C5, as stated, fails: an entry whose quantity is 0 is exported with the quantity 1, so
  reading the file back does not reproduce that field.
\<close>

theorem downloadCSV_quantity_zero:
  "downloadCSV (js ''x.csv'') [itemOfEntry (exEntry\<lparr>e_quantity := 0\<rparr>)] =
     Some (js ''x.csv'', [0xFEFF] @ csvString [itemOfEntry (exEntry\<lparr>e_quantity := 0\<rparr>)])
   \<and> map (\<lambda>record. record ! 8)
         (csvRead ([0xFEFF] @ csvString [itemOfEntry (exEntry\<lparr>e_quantity := 0\<rparr>)])) =
       [[0xC218, 0xB7C9], js ''1'']
   \<and> numberToString (e_quantity (exEntry\<lparr>e_quantity := 0\<rparr>)) = js ''0''"
  by (simp add: downloadCSV_def csvRead_csvString cells_itemOfEntry customHeaders_def
      numberToString_0_1)

text \<open>
  C5, amended. For a non-empty list of entries the exported text is the byte order mark,
  the header line of the ten fixed column names and one line for each entry, joined by
  line feeds. A line consists of ten fields joined by commas, each between double quotes
  with its double quotes doubled and nothing else changed; the fourth and fifth field
  are empty. Reading the text back yields the header and, for each entry in order, the
  exact \<open>instagramId\<close>, \<open>name\<close>, \<open>phone\<close>, \<open>address\<close>, \<open>productName\<close>, \<open>size\<close> and \<open>message\<close>
  of the entry, whatever code units they hold, and the decimal numeral of its quantity,
  with 1 in place of a quantity of 0. For the empty list nothing is emitted.
\<close>

theorem downloadCSV_round_trip:
  "(entries \<noteq> [] \<longrightarrow>
      downloadCSV filename (map itemOfEntry entries) =
        Some (filename,
              [0xFEFF] @
              join [0x0A]
                (join (js '','') customHeaders #
                 map (\<lambda>e. join (js '','')
                            (map quote
                               [e_instagramId e, e_name e, e_phone e, [], [], e_address e,
                                e_productName e, e_size e,
                                numberToString (if e_quantity e = 0 then 1 else e_quantity e),
                                e_message e]))
                     entries))
      \<and> (case downloadCSV filename (map itemOfEntry entries) of
            None \<Rightarrow> False
          | Some (name, content) \<Rightarrow>
              csvRead content =
                customHeaders #
                map (\<lambda>e. [e_instagramId e, e_name e, e_phone e, [], [], e_address e,
                          e_productName e, e_size e,
                          numberToString (if e_quantity e = 0 then 1 else e_quantity e),
                          e_message e])
                    entries))
   \<and> downloadCSV filename [] = None
   \<and> length customHeaders = 10"
proof (intro conjI impI)
  assume ne: "entries \<noteq> []"
  show "downloadCSV filename (map itemOfEntry entries) =
        Some (filename,
              [0xFEFF] @
              join [0x0A]
                (join (js '','') customHeaders #
                 map (\<lambda>e. join (js '','')
                            (map quote
                               [e_instagramId e, e_name e, e_phone e, [], [], e_address e,
                                e_productName e, e_size e,
                                numberToString (if e_quantity e = 0 then 1 else e_quantity e),
                                e_message e]))
                     entries))"
    using ne by (simp add: downloadCSV_def csvString_def row_cells cells_itemOfEntry comp_def)
  show "case downloadCSV filename (map itemOfEntry entries) of
            None \<Rightarrow> False
          | Some (name, content) \<Rightarrow>
              csvRead content =
                customHeaders #
                map (\<lambda>e. [e_instagramId e, e_name e, e_phone e, [], [], e_address e,
                          e_productName e, e_size e,
                          numberToString (if e_quantity e = 0 then 1 else e_quantity e),
                          e_message e])
                    entries"
    using ne by (simp add: downloadCSV_def csvRead_csvString cells_itemOfEntry comp_def)
next
  show "downloadCSV filename [] = None"
    by (simp add: downloadCSV_def)
  show "length customHeaders = 10"
    by (simp add: customHeaders_def)
qed

text \<open>
  The witness is the example of the specification, with the name U+AE40 U+BBFC U+C9C0
  and, in the message, a comma, a double quote and a line feed.
\<close>

theorem downloadCSV_round_trip_witness:
  "(case downloadCSV (js ''x.csv'')
           [itemOfEntry (exEntry\<lparr>e_name := [0xAE40, 0xBBFC, 0xC9C0],
                                  e_message := js ''fast, '' @ [0x22] @ js ''please'' @ [0x22, 0x0A]\<rparr>)] of
      None \<Rightarrow> False
    | Some (name, content) \<Rightarrow>
        csvRead content =
          [customHeaders,
           [js ''abc'', [0xAE40, 0xBBFC, 0xC9C0], js ''010-1234-5678'', [], [], js ''Seoul'',
            js ''Tee'', js ''M'', js ''2'', js ''fast, '' @ [0x22] @ js ''please'' @ [0x22, 0x0A]]])"
  using downloadCSV_round_trip
    [of "[exEntry\<lparr>e_name := [0xAE40, 0xBBFC, 0xC9C0],
                     e_message := js ''fast, '' @ [0x22] @ js ''please'' @ [0x22, 0x0A]\<rparr>]" "js ''x.csv''"]
  by (simp add: exEntry_def numberToString_def natToString.simps digit_def js_def
      split: option.splits)

text \<open>
  C10. The ninth column of a row is the quantity between double quotes when the quantity
  is truthy, and \<open>"1"\<close> when it is falsy; a quantity of 0 is exported as \<open>"1"\<close>. Every
  other column is \<open>escape\<close> of its property, and \<open>escape\<close> of a falsy value, among them
  the empty string, \<open>null\<close> and \<open>undefined\<close>, is the empty text between double quotes and
  not the words \<open>null\<close> or \<open>undefined\<close>.
\<close>

theorem row_quantity_default:
  "row item ! 8 =
     quote (if truthy (i_quantity item) then jsString (i_quantity item) else js ''1'')
   \<and> row (item\<lparr>i_quantity := JNumber 0\<rparr>) ! 8 = [0x22, 0x31, 0x22]
   \<and> row (itemOfEntry e) ! 8 =
       quote (if e_quantity e = 0 then js ''1'' else numberToString (e_quantity e))
   \<and> row item =
       [escape (i_instagramId item), escape (i_name item), escape (i_phone item),
        [0x22, 0x22], [0x22, 0x22], escape (i_address item), escape (i_productName item),
        escape (i_size item), row item ! 8, escape (i_message item)]
   \<and> escape v = (if truthy v then quote (jsString v) else [0x22, 0x22])
   \<and> escape (JString []) = [0x22, 0x22]
   \<and> escape JNull = [0x22, 0x22]
   \<and> escape JUndefined = [0x22, 0x22]
   \<and> escape JNull \<noteq> quote (js ''null'')
   \<and> escape JUndefined \<noteq> quote (js ''undefined'')"
  by (simp add: row_def escape_quote itemOfEntry_def quote_def numberToString_0_1 js_def)

section \<open>Loading the persisted document\<close>

lemma map_of_replace:
  "k \<in> fst ` set ps \<Longrightarrow>
   map_of (map (\<lambda>(k', v'). if k' = k then (k', v) else (k', v')) ps) k = Some v"
proof (induction ps)
  case Nil
  then show ?case by simp
next
  case (Cons a ps)
  obtain k' v' where a: "a = (k', v')" by (cases a)
  show ?case
  proof (cases "k' = k")
    case True
    with a show ?thesis by simp
  next
    case False
    with a Cons.prems have "k \<in> fst ` set ps" by auto
    with Cons.IH False a show ?thesis by simp
  qed
qed

lemma getItem_setItem: "getItem (setItem k v localStorage) k = Some v"
proof (cases "k \<in> fst ` set localStorage")
  case True
  then show ?thesis by (simp add: getItem_def setItem_def map_of_replace)
next
  case False
  then have "map_of localStorage k = None"
    by (simp add: map_of_eq_None_iff)
  with False show ?thesis by (simp add: getItem_def setItem_def map_add_def)
qed

lemma unat_js_char: "unat (of_nat (of_char c) :: 16 word) = of_char c"
proof -
  have "(of_char c :: nat) < 256" by simp
  then have "(of_char c :: nat) < 65536" by linarith
  then show ?thesis by (simp add: unat_of_nat)
qed

lemma js_inject: "(js a = js b) = (a = b)"
proof -
  have "inj (\<lambda>c. of_nat (of_char c) :: 16 word)"
  proof (rule injI)
    fix x y :: char
    assume "(of_nat (of_char x) :: 16 word) = of_nat (of_char y)"
    then have "unat (of_nat (of_char x) :: 16 word) = unat (of_nat (of_char y) :: 16 word)"
      by simp
    then have "(of_char x :: nat) = of_char y"
      by (simp only: unat_js_char)
    then show "x = y" by simp
  qed
  then show ?thesis by (simp add: js_def)
qed

lemma property_Nil: "property [] k = None"
  by (simp add: property_def)

lemma property_Cons: "property ((js k', v) # ps) k = (if k' = k then Some v else property ps k)"
  by (simp add: property_def js_inject)

lemma those_map_Some: "(\<And>x. x \<in> set xs \<Longrightarrow> h x = Some x) \<Longrightarrow> those (map h xs) = Some xs"
  by (induction xs) auto

lemma asStrings_map_JsStr: "asStrings (Some (JsArr (map JsStr xs))) = Some xs"
  by (simp add: asStrings_def asArray_def asString_def those_map_Some comp_def)

lemma asArray_map:
  "(\<And>x. f (g x) = Some x) \<Longrightarrow> asArray f (Some (JsArr (map g xs))) = Some xs"
  by (simp add: asArray_def those_map_Some comp_def)

lemmas as_simps = property_Nil property_Cons asString_def asNumber_def asStrings_map_JsStr

lemma asProduct_toJSON: "asProduct (Product_toJSON p) = Some p"
  by (simp add: asProduct_def Product_toJSON_def as_simps)

lemma asShippingEntry_toJSON: "asShippingEntry (ShippingEntry_toJSON e) = Some e"
  by (cases "e_status e")
     (simp_all add: asShippingEntry_def ShippingEntry_toJSON_def as_simps
        asShippingStatus_def ShippingStatus_toJSON_def)

lemma asCollection_toJSON: "asCollection (Collection_toJSON c) = Some c"
  by (cases "c_logoUrl c")
     (simp_all add: asCollection_def Collection_toJSON_def as_simps asOptionalString_def
        asArray_map asProduct_toJSON asShippingEntry_toJSON)

lemma asAppState_toJSON: "asAppState (toJSON st) = Some st"
  by (cases "activeCollectionId st")
     (simp_all add: asAppState_def toJSON_def as_simps asStringOrNull_def
        asArray_map asCollection_toJSON)

subsection \<open>The JSON reader ends\<close>

lemma length_skipWhiteSpace: "length (skipWhiteSpace s) \<le> length s"
  by (simp add: skipWhiteSpace_def length_dropWhile_le)

lemma skipWhiteSpace_Cons: "skipWhiteSpace s = c # cs \<Longrightarrow> length cs < length s"
  using length_skipWhiteSpace [of s] by simp

lemma parseString_shorter: "parseString acc cs = Some (str, r) \<Longrightarrow> length r < length cs"
proof (induction acc cs rule: parseString.induct)
  case (1 acc)
  then show ?case by simp
next
  case (2 acc c cs)
  show ?case
  proof (cases "c = 0x22")
    case True
    with "2.prems" show ?thesis by simp
  next
    case nq: False
    show ?thesis
    proof (cases "c < 0x20")
      case True
      with nq "2.prems" show ?thesis by simp
    next
      case nc: False
      show ?thesis
      proof (cases "c = 0x5C")
        case False
        with nq nc "2.prems" have "parseString (acc @ [c]) cs = Some (str, r)" by simp
        with "2.IH"(3) [OF nq nc False] show ?thesis by simp
      next
        case bs: True
        show ?thesis
        proof (cases cs)
          case Nil
          with nq nc bs "2.prems" show ?thesis by simp
        next
          case (Cons e es)
          show ?thesis
          proof (cases "e = 0x75")
            case True
            with "2.prems" nq nc bs Cons obtain w where w: "hex4 (take 4 es) = Some w"
              and p: "parseString (acc @ [w]) (drop 4 es) = Some (str, r)"
              by (simp split: option.splits)
            from "2.IH"(1) [OF nq nc bs Cons True w p] have "length r < length (drop 4 es)" .
            with Cons show ?thesis by simp
          next
            case False
            with "2.prems" nq nc bs Cons obtain x where x: "simpleEscape e = Some x"
              and p: "parseString (acc @ [x]) es = Some (str, r)"
              by (simp split: option.splits)
            from "2.IH"(2) [OF nq nc bs Cons False x p] have "length r < length es" .
            with Cons show ?thesis by simp
          qed
        qed
      qed
    qed
  qed
qed

lemma dropWhile_shorter: "takeWhile P s \<noteq> [] \<Longrightarrow> length (dropWhile P s) < length s"
proof -
  assume "takeWhile P s \<noteq> []"
  then have "0 < length (takeWhile P s)" by simp
  moreover have "length (takeWhile P s) + length (dropWhile P s) = length s"
    by (metis length_append takeWhile_dropWhile_id)
  ultimately show ?thesis by linarith
qed

lemma length_tl_le: "length (tl s) \<le> length s"
  by simp

lemma parseNumber_shorter:
  assumes "parseNumber s = Some (v, r)"
  shows "length r < length s"
proof -
  define neg where "neg = (s \<noteq> [] \<and> hd s = 0x2D)"
  define s1 where "s1 = (if neg then tl s else s)"
  define ds where "ds = takeWhile isDigit s1"
  define r1 where "r1 = dropWhile isDigit s1"
  define hasFrac where "hasFrac = (r1 \<noteq> [] \<and> hd r1 = 0x2E)"
  define fs where "fs = (if hasFrac then takeWhile isDigit (tl r1) else [])"
  define r2 where "r2 = (if hasFrac then dropWhile isDigit (tl r1) else r1)"
  define hasExp where "hasExp = (r2 \<noteq> [] \<and> (hd r2 = 0x65 \<or> hd r2 = 0x45))"
  define r3 where "r3 = (if hasExp then tl r2 else r2)"
  define eneg where "eneg = (hasExp \<and> r3 \<noteq> [] \<and> hd r3 = 0x2D)"
  define r4 where "r4 = (if hasExp \<and> r3 \<noteq> [] \<and> (hd r3 = 0x2B \<or> hd r3 = 0x2D) then tl r3 else r3)"
  define es where "es = (if hasExp then takeWhile isDigit r4 else [])"
  define rest where "rest = (if hasExp then dropWhile isDigit r4 else r2)"
  define m where "m = int (digitsValue (ds @ fs))"
  define shift where
    "shift = (if eneg then - int (digitsValue es) else int (digitsValue es)) - int (length fs)"
  define sign where "sign = (if neg then - 1 else 1 :: int)"
  have eq: "parseNumber s =
      (if ds = [] \<or> (1 < length ds \<and> hd ds = 0x30) \<or> (hasFrac \<and> fs = []) \<or> (hasExp \<and> es = [])
       then None
       else if 0 \<le> shift then Some (JsNum (sign * m * 10 ^ nat shift), rest)
       else if m mod 10 ^ nat (- shift) = 0
       then Some (JsNum (sign * (m div 10 ^ nat (- shift))), rest)
       else None)"
    unfolding parseNumber_def Let_def sign_def shift_def m_def rest_def es_def r4_def eneg_def
      r3_def hasExp_def r2_def fs_def hasFrac_def r1_def ds_def s1_def neg_def
    by (rule refl)
  from assms have ds: "ds \<noteq> []" and r: "r = rest"
    unfolding eq by (auto split: if_splits)
  have r3: "length r3 \<le> length r2"
    unfolding r3_def by simp
  have r4: "length r4 \<le> length r3"
    unfolding r4_def by simp
  have "length (dropWhile isDigit r4) \<le> length r4"
    by (rule length_dropWhile_le)
  with r3 r4 have "length rest \<le> length r2"
    unfolding rest_def by simp
  also have "\<dots> \<le> length r1"
  proof -
    have "length (dropWhile isDigit (tl r1)) \<le> length (tl r1)"
      by (rule length_dropWhile_le)
    moreover have "length (tl r1) \<le> length r1" by simp
    ultimately have "length (dropWhile isDigit (tl r1)) \<le> length r1" by (rule order_trans)
    then show ?thesis unfolding r2_def by (simp del: length_tl)
  qed
  also have "\<dots> < length s1"
    unfolding r1_def using ds unfolding ds_def by (rule dropWhile_shorter)
  also have "\<dots> \<le> length s"
    unfolding s1_def by simp
  finally show ?thesis using r by simp
qed

lemma parseValue_Suc_cases:
  assumes p: "parseValue (Suc n) s = Parsed (v, r)"
  shows "\<exists>c cs. skipWhiteSpace s = c # cs \<and>
           ((\<exists>d ds. skipWhiteSpace cs = d # ds \<and>
                (r = ds \<or> (\<exists>ms. parseMembers n [] cs = Parsed (ms, r))
                        \<or> (\<exists>vs. parseElements n [] cs = Parsed (vs, r))))
            \<or> (\<exists>x. parseString [] cs = Some (x, r))
            \<or> r = drop 3 cs \<or> r = drop 4 cs
            \<or> (\<exists>w. parseNumber (c # cs) = Some (w, r)))"
proof (cases "skipWhiteSpace s")
  case Nil
  with p show ?thesis by (simp only: parseValue.simps list.case) simp
next
  case (Cons c cs)
  show ?thesis
  proof (cases "skipWhiteSpace cs")
    case Nil
    with p Cons show ?thesis
      apply (simp only: parseValue.simps list.case)
      apply (simp split: if_splits option.splits prod.splits)
      done
  next
    case c2: (Cons d ds)
    with p Cons show ?thesis
      apply (simp only: parseValue.simps list.case)
      apply (simp split: if_splits option.splits prod.splits parsed.splits)
      done
  qed
qed

lemma parseElements_Suc_cases:
  assumes p: "parseElements (Suc n) acc s = Parsed (vs, r)"
  shows "\<exists>v r0 c cs. parseValue n s = Parsed (v, r0) \<and> skipWhiteSpace r0 = c # cs \<and>
           (r = cs \<or> parseElements n (acc @ [v]) cs = Parsed (vs, r))"
  using p
  apply (simp only: parseElements.simps)
  apply (simp split: parsed.splits prod.splits list.splits if_splits)
  done

lemma parseMembers_Suc_cases:
  assumes p: "parseMembers (Suc n) acc s = Parsed (ms, r)"
  shows "\<exists>q cs k r1 colon r2 v r3 c r4.
           skipWhiteSpace s = q # cs \<and> parseString [] cs = Some (k, r1) \<and>
           skipWhiteSpace r1 = colon # r2 \<and> parseValue n r2 = Parsed (v, r3) \<and>
           skipWhiteSpace r3 = c # r4 \<and>
           (r = r4 \<or> parseMembers n (assign k v acc) r4 = Parsed (ms, r))"
  using p
  apply (simp only: parseMembers.simps)
  apply (simp split: parsed.splits prod.splits list.splits if_splits option.splits)
  done

lemma parse_shorter:
  "(\<forall>s v r. parseValue n s = Parsed (v, r) \<longrightarrow> length r < length s)
   \<and> (\<forall>acc s vs r. parseElements n acc s = Parsed (vs, r) \<longrightarrow> length r < length s)
   \<and> (\<forall>acc s ms r. parseMembers n acc s = Parsed (ms, r) \<longrightarrow> length r < length s)"
proof (induction n)
  case 0
  show ?case by simp
next
  case (Suc n)
  have V: "length r < length s" if "parseValue n s = Parsed (v, r)" for s v r
    using Suc that by blast
  have E: "length r < length s" if "parseElements n acc s = Parsed (vs, r)" for acc s vs r
    using Suc that by blast
  have M: "length r < length s" if "parseMembers n acc s = Parsed (ms, r)" for acc s ms r
    using Suc that by blast
  have V': "length r < length s" if p: "parseValue (Suc n) s = Parsed (v, r)" for s v r
  proof -
    from parseValue_Suc_cases [OF p] obtain c cs where c: "skipWhiteSpace s = c # cs"
      and d: "(\<exists>d ds. skipWhiteSpace cs = d # ds \<and>
                (r = ds \<or> (\<exists>ms. parseMembers n [] cs = Parsed (ms, r))
                        \<or> (\<exists>vs. parseElements n [] cs = Parsed (vs, r))))
            \<or> (\<exists>x. parseString [] cs = Some (x, r))
            \<or> r = drop 3 cs \<or> r = drop 4 cs
            \<or> (\<exists>w. parseNumber (c # cs) = Some (w, r))"
      by blast
    from c have cs: "length cs < length s" by (rule skipWhiteSpace_Cons)
    from d consider
        (a) d ds where "skipWhiteSpace cs = d # ds" "r = ds"
      | (b) ms where "parseMembers n [] cs = Parsed (ms, r)"
      | (c) vs where "parseElements n [] cs = Parsed (vs, r)"
      | (d) x where "parseString [] cs = Some (x, r)"
      | (e) "r = drop 3 cs \<or> r = drop 4 cs"
      | (f) w where "parseNumber (c # cs) = Some (w, r)"
      by blast
    then show ?thesis
    proof cases
      case a
      from skipWhiteSpace_Cons [OF a(1)] a(2) cs show ?thesis by simp
    next
      case b
      from M [OF b] cs show ?thesis by simp
    next
      case c
      from E [OF c] cs show ?thesis by simp
    next
      case d
      from parseString_shorter [OF d] cs show ?thesis by simp
    next
      case e
      with cs show ?thesis by auto
    next
      case f
      from parseNumber_shorter [OF f] cs show ?thesis by simp
    qed
  qed
  have E': "length r < length s" if p: "parseElements (Suc n) acc s = Parsed (vs, r)" for acc s vs r
  proof -
    from parseElements_Suc_cases [OF p] obtain v r0 c cs where
      v: "parseValue n s = Parsed (v, r0)" and c: "skipWhiteSpace r0 = c # cs"
      and d: "r = cs \<or> parseElements n (acc @ [v]) cs = Parsed (vs, r)"
      by blast
    from V [OF v] skipWhiteSpace_Cons [OF c] have "length cs < length s" by simp
    with d E show ?thesis by (auto dest: E)
  qed
  have M': "length r < length s" if p: "parseMembers (Suc n) acc s = Parsed (ms, r)" for acc s ms r
  proof -
    from parseMembers_Suc_cases [OF p] obtain q cs k r1 colon r2 v r3 c r4 where
      a: "skipWhiteSpace s = q # cs" and b: "parseString [] cs = Some (k, r1)"
      and c: "skipWhiteSpace r1 = colon # r2" and d: "parseValue n r2 = Parsed (v, r3)"
      and e: "skipWhiteSpace r3 = c # r4"
      and f: "r = r4 \<or> parseMembers n (assign k v acc) r4 = Parsed (ms, r)"
      by blast
    from skipWhiteSpace_Cons [OF a] parseString_shorter [OF b] skipWhiteSpace_Cons [OF c]
      V [OF d] skipWhiteSpace_Cons [OF e]
    have "length r4 < length s" by simp
    with f show ?thesis by (auto dest: M)
  qed
  from V' E' M' show ?case by blast
qed

lemma parseValue_Suc_OutOfFuel:
  assumes p: "parseValue (Suc n) s = OutOfFuel"
  shows "\<exists>c cs. skipWhiteSpace s = c # cs \<and>
           (parseMembers n [] cs = OutOfFuel \<or> parseElements n [] cs = OutOfFuel)"
proof (cases "skipWhiteSpace s")
  case Nil
  with p show ?thesis by (simp only: parseValue.simps list.case) simp
next
  case (Cons c cs)
  show ?thesis
  proof (cases "skipWhiteSpace cs")
    case Nil
    with p Cons show ?thesis
      apply (simp only: parseValue.simps list.case)
      apply (simp split: if_splits option.splits prod.splits)
      done
  next
    case c2: (Cons d ds)
    with p Cons show ?thesis
      apply (simp only: parseValue.simps list.case)
      apply (simp split: if_splits option.splits prod.splits parsed.splits)
      done
  qed
qed

lemma parseElements_Suc_OutOfFuel:
  assumes p: "parseElements (Suc n) acc s = OutOfFuel"
  shows "parseValue n s = OutOfFuel \<or>
         (\<exists>v r0 c cs. parseValue n s = Parsed (v, r0) \<and> skipWhiteSpace r0 = c # cs \<and>
            parseElements n (acc @ [v]) cs = OutOfFuel)"
  using p
  apply (simp only: parseElements.simps)
  apply (simp split: parsed.splits prod.splits list.splits if_splits)
  done

lemma parseMembers_Suc_OutOfFuel:
  assumes p: "parseMembers (Suc n) acc s = OutOfFuel"
  shows "\<exists>q cs k r1 colon r2.
           skipWhiteSpace s = q # cs \<and> parseString [] cs = Some (k, r1) \<and>
           skipWhiteSpace r1 = colon # r2 \<and>
           (parseValue n r2 = OutOfFuel \<or>
            (\<exists>v r3 c r4. parseValue n r2 = Parsed (v, r3) \<and> skipWhiteSpace r3 = c # r4 \<and>
               parseMembers n (assign k v acc) r4 = OutOfFuel))"
  using p
  apply (simp only: parseMembers.simps)
  apply (simp split: parsed.splits prod.splits list.splits if_splits option.splits)
  done

lemma parseValue_shorter: "parseValue n s = Parsed (v, r) \<Longrightarrow> length r < length s"
  using parse_shorter [of n] by blast

lemma parse_fuel:
  "(\<forall>s. 2 * length s < n \<longrightarrow> parseValue n s \<noteq> OutOfFuel)
   \<and> (\<forall>acc s. 2 * length s + 1 < n \<longrightarrow> parseElements n acc s \<noteq> OutOfFuel)
   \<and> (\<forall>acc s. 2 * length s < n \<longrightarrow> parseMembers n acc s \<noteq> OutOfFuel)"
proof (induction n)
  case 0
  show ?case by simp
next
  case (Suc n)
  have V: "parseValue n s \<noteq> OutOfFuel" if "2 * length s < n" for s
    using Suc that by blast
  have E: "parseElements n acc s \<noteq> OutOfFuel" if "2 * length s + 1 < n" for acc s
    using Suc that by blast
  have M: "parseMembers n acc s \<noteq> OutOfFuel" if "2 * length s < n" for acc s
    using Suc that by blast
  have V': "parseValue (Suc n) s \<noteq> OutOfFuel" if l: "2 * length s < Suc n" for s
  proof
    assume "parseValue (Suc n) s = OutOfFuel"
    from parseValue_Suc_OutOfFuel [OF this] obtain c cs where c: "skipWhiteSpace s = c # cs"
      and d: "parseMembers n [] cs = OutOfFuel \<or> parseElements n [] cs = OutOfFuel"
      by blast
    from skipWhiteSpace_Cons [OF c] l have "2 * length cs + 1 < n" by simp
    with d M [of cs "[]"] E [of cs "[]"] show False by simp
  qed
  have E': "parseElements (Suc n) acc s \<noteq> OutOfFuel" if l: "2 * length s + 1 < Suc n" for acc s
  proof
    assume "parseElements (Suc n) acc s = OutOfFuel"
    from parseElements_Suc_OutOfFuel [OF this] consider
        (a) "parseValue n s = OutOfFuel"
      | (b) v r0 c cs where "parseValue n s = Parsed (v, r0)" "skipWhiteSpace r0 = c # cs"
          "parseElements n (acc @ [v]) cs = OutOfFuel"
      by blast
    then show False
    proof cases
      case a
      with V [of s] l show False by simp
    next
      case b
      from parseValue_shorter [OF b(1)] skipWhiteSpace_Cons [OF b(2)] l
      have "2 * length cs + 1 < n" by simp
      with E [of cs "acc @ [v]"] b(3) show False by simp
    qed
  qed
  have M': "parseMembers (Suc n) acc s \<noteq> OutOfFuel" if l: "2 * length s < Suc n" for acc s
  proof
    assume "parseMembers (Suc n) acc s = OutOfFuel"
    from parseMembers_Suc_OutOfFuel [OF this] obtain q cs k r1 colon r2 where
      a: "skipWhiteSpace s = q # cs" and b: "parseString [] cs = Some (k, r1)"
      and c: "skipWhiteSpace r1 = colon # r2"
      and d: "parseValue n r2 = OutOfFuel \<or>
            (\<exists>v r3 c r4. parseValue n r2 = Parsed (v, r3) \<and> skipWhiteSpace r3 = c # r4 \<and>
               parseMembers n (assign k v acc) r4 = OutOfFuel)"
      by blast
    from skipWhiteSpace_Cons [OF a] parseString_shorter [OF b] skipWhiteSpace_Cons [OF c] l
    have r2: "2 * length r2 < n" by simp
    from d consider
        (x) "parseValue n r2 = OutOfFuel"
      | (y) v r3 c r4 where "parseValue n r2 = Parsed (v, r3)" "skipWhiteSpace r3 = c # r4"
          "parseMembers n (assign k v acc) r4 = OutOfFuel"
      by blast
    then show False
    proof cases
      case x
      with V [OF r2] show False by simp
    next
      case y
      from parseValue_shorter [OF y(1)] skipWhiteSpace_Cons [OF y(2)] r2
      have "2 * length r4 < n" by simp
      with M [of r4 "assign k v acc"] y(3) show False by simp
    qed
  qed
  from V' E' M' show ?case by blast
qed

text \<open>
  The bound with which \<open>JSON_parse\<close> starts the reader is never reached: the reader ends
  with a value or with a syntax error, and \<open>JSON_parse\<close> is \<open>None\<close> only for a text that is
  not a JSON text of the model.
\<close>

lemma JSON_parse_fuel: "parseValue (2 * length s + 2) s \<noteq> OutOfFuel"
  using parse_fuel [of "2 * length s + 2"] by simp

lemma JSON_parse_None:
  "JSON_parse s = None \<longleftrightarrow>
     parseValue (2 * length s + 2) s = SyntaxError
     \<or> (\<exists>v r. parseValue (2 * length s + 2) s = Parsed (v, r) \<and> skipWhiteSpace r \<noteq> [])"
  using JSON_parse_fuel [of s]
  by (auto simp: JSON_parse_def split: parsed.splits)

subsection \<open>The initial state\<close>

text \<open>
  C8, as stated, fails: a stored text that is valid JSON is returned as it is parsed,
  whatever its structure. Here the stored text is \<open>{}\<close>: \<open>load\<close> returns the empty object,
  which is not an \<open>AppState\<close> and is not the default document, and logs nothing.
\<close>

theorem load_incompatible_document:
  "load JSON_parse [(STORAGE_KEY, js ''{}'')] = (JsObj [], [])
   \<and> asAppState (JsObj []) = None
   \<and> JsObj [] \<noteq> toJSON defaultState"
proof (intro conjI)
  have "JSON_parse (js ''{}'') = Some (JsObj [])"
    by code_simp
  then show "load JSON_parse [(STORAGE_KEY, js ''{}'')] = (JsObj [], [])"
    by (simp add: load_def getItem_def js_def)
  show "asAppState (JsObj []) = None"
    by (simp add: asAppState_def property_Nil asArray_def)
  show "JsObj [] \<noteq> toJSON defaultState"
    by (simp add: toJSON_def)
qed

text \<open>
  C8, amended. \<open>load\<close> returns the default document (no collections, a null
  \<open>activeCollectionId\<close>, the administrator's code \<open>admin\<close>) when nothing, or the empty
  string, is stored under the fixed key, and, with one line logged and nothing else
  reported, when \<open>JSON.parse\<close> throws on the stored text. When the stored text parses,
  \<open>load\<close> returns the parsed value without checking its structure. After \<open>save\<close> of a
  document that \<open>JSON.parse\<close> reads back from what \<open>JSON.stringify\<close> wrote, \<open>load\<close>
  returns that document.
\<close>

theorem load_cases:
  "(getItem localStorage STORAGE_KEY = None \<or> getItem localStorage STORAGE_KEY = Some [] \<longrightarrow>
      load parse localStorage = (toJSON defaultState, []))
   \<and> (getItem localStorage STORAGE_KEY = Some saved \<and> saved \<noteq> [] \<and> parse saved = None \<longrightarrow>
      load parse localStorage = (toJSON defaultState, [js ''Failed to parse storage'']))
   \<and> (getItem localStorage STORAGE_KEY = Some saved \<and> saved \<noteq> [] \<and> parse saved = Some v \<longrightarrow>
      load parse localStorage = (v, []))
   \<and> (stringify (toJSON st) \<noteq> [] \<and> parse (stringify (toJSON st)) = Some (toJSON st) \<longrightarrow>
      load parse (save stringify st localStorage) = (toJSON st, [])
      \<and> asAppState (fst (load parse (save stringify st localStorage))) = Some st)
   \<and> toJSON defaultState =
       JsObj [(js ''collections'', JsArr []),
              (js ''activeCollectionId'', JsNull),
              (js ''adminAccessCode'', JsStr (js ''admin''))]"
proof (intro conjI impI)
  assume "getItem localStorage STORAGE_KEY = None \<or> getItem localStorage STORAGE_KEY = Some []"
  then show "load parse localStorage = (toJSON defaultState, [])"
    by (auto simp: load_def)
next
  assume "getItem localStorage STORAGE_KEY = Some saved \<and> saved \<noteq> [] \<and> parse saved = None"
  then show "load parse localStorage = (toJSON defaultState, [js ''Failed to parse storage''])"
    by (simp add: load_def)
next
  assume "getItem localStorage STORAGE_KEY = Some saved \<and> saved \<noteq> [] \<and> parse saved = Some v"
  then show "load parse localStorage = (v, [])"
    by (simp add: load_def)
next
  assume a: "stringify (toJSON st) \<noteq> [] \<and> parse (stringify (toJSON st)) = Some (toJSON st)"
  then show l: "load parse (save stringify st localStorage) = (toJSON st, [])"
    by (simp add: load_def save_def getItem_setItem)
  show "asAppState (fst (load parse (save stringify st localStorage))) = Some st"
    by (simp add: l asAppState_toJSON)
next
  show "toJSON defaultState =
       JsObj [(js ''collections'', JsArr []),
              (js ''activeCollectionId'', JsNull),
              (js ''adminAccessCode'', JsStr (js ''admin''))]"
    by (simp add: toJSON_def defaultState_def)
qed

theorem load_cases_witness:
  "load JSON_parse [(js ''k'', js ''v'')] = (toJSON defaultState, [])
   \<and> load JSON_parse [(STORAGE_KEY, js ''{oops'')] =
       (toJSON defaultState, [js ''Failed to parse storage''])
   \<and> load JSON_parse [(STORAGE_KEY, js ''[1, 2]'')] = (JsArr [JsNum 1, JsNum 2], [])
   \<and> load JSON_parse (save JSON_stringify defaultState [(STORAGE_KEY, js ''{}'')]) =
       (toJSON defaultState, [])"
proof (intro conjI)
  show "load JSON_parse [(js ''k'', js ''v'')] = (toJSON defaultState, [])"
    using load_cases [of "[(js ''k'', js ''v'')]" JSON_parse]
    by (simp add: getItem_def STORAGE_KEY_def js_inject)
next
  have "JSON_parse (js ''{oops'') = None"
    by code_simp
  then show "load JSON_parse [(STORAGE_KEY, js ''{oops'')] =
       (toJSON defaultState, [js ''Failed to parse storage''])"
    using load_cases [of "[(STORAGE_KEY, js ''{oops'')]" JSON_parse "js ''{oops''"]
    by (simp add: getItem_def js_def)
next
  have "JSON_parse (js ''[1, 2]'') = Some (JsArr [JsNum 1, JsNum 2])"
    by code_simp
  then show "load JSON_parse [(STORAGE_KEY, js ''[1, 2]'')] = (JsArr [JsNum 1, JsNum 2], [])"
    using load_cases [of "[(STORAGE_KEY, js ''[1, 2]'')]" JSON_parse "js ''[1, 2]''"
        "JsArr [JsNum 1, JsNum 2]"]
    by (simp add: getItem_def js_def)
next
  have p: "JSON_parse (JSON_stringify (toJSON defaultState)) = Some (toJSON defaultState)"
    by code_simp
  have n: "JSON_stringify (toJSON defaultState) \<noteq> []"
    by (simp add: toJSON_def js_def)
  show "load JSON_parse (save JSON_stringify defaultState [(STORAGE_KEY, js ''{}'')]) =
       (toJSON defaultState, [])"
    using load_cases [of "[(STORAGE_KEY, js ''{}'')]" JSON_parse _ _ JSON_stringify defaultState] p n
    by simp
qed

end
